theory Spec2Isabelle
  imports Main "HOL-Library.Code_Target_Nat"
begin

text \<open>
  The conversational agent of the travel-booking backend: the service that obtains a
  decision from a model endpoint, extracts a tool call from its text, runs the tool and
  asks the endpoint for a summary. The source file holds three versions of the service;
  the one embedded here is the version with the external calendar connector and the
  backward brace scan (\<open>connectToMcpServer\<close>, \<open>extractJson\<close>,
  \<open>generateAIResponse\<close>). The booking branches of the other two versions read the same.
\<close>

section \<open>Strings of the host language\<close>

text \<open>
  A JavaScript string is a sequence of UTF-16 code units. A code unit is modelled by its
  number, a string by the list of its code units; \<open>js\<close> turns an ASCII literal into
  such a list, so that the constants of the source can be written as they are there.
\<close>

type_synonym jsstring = "nat list"

definition js :: "string \<Rightarrow> jsstring" where
  "js s = map of_char s"

abbreviation (input) LBRACE :: nat where "LBRACE \<equiv> 123"
abbreviation (input) RBRACE :: nat where "RBRACE \<equiv> 125"
abbreviation (input) LBRACKET :: nat where "LBRACKET \<equiv> 91"
abbreviation (input) RBRACKET :: nat where "RBRACKET \<equiv> 93"
abbreviation (input) DQUOTE :: nat where "DQUOTE \<equiv> 34"
abbreviation (input) BACKSLASH :: nat where "BACKSLASH \<equiv> 92"
abbreviation (input) COLON :: nat where "COLON \<equiv> 58"
abbreviation (input) COMMA :: nat where "COMMA \<equiv> 44"
abbreviation (input) BACKTICK :: nat where "BACKTICK \<equiv> 96"

text \<open>
  The class \<open>\s\<close> of a regular expression and the characters removed by
  \<open>String.prototype.trim\<close> are the same set: the white space and line terminator code
  units of the language.
\<close>

definition isSpace :: "nat \<Rightarrow> bool" where
  "isSpace c \<longleftrightarrow>
     (9 \<le> c \<and> c \<le> 13) \<or> c = 32 \<or> c = 160 \<or> c = 5760 \<or> (8192 \<le> c \<and> c \<le> 8202)
     \<or> c = 8232 \<or> c = 8233 \<or> c = 8239 \<or> c = 8287 \<or> c = 12288 \<or> c = 65279"

text \<open>\<open>[\x00-\x1F\x7F]\<close>\<close>

definition isControl :: "nat \<Rightarrow> bool" where
  "isControl c \<longleftrightarrow> c \<le> 31 \<or> c = 127"

definition isDigit :: "nat \<Rightarrow> bool" where
  "isDigit c \<longleftrightarrow> 48 \<le> c \<and> c \<le> 57"

text \<open>\<open>s.substring(i, j)\<close> for \<open>i \<le> j\<close>.\<close>

definition substring :: "jsstring \<Rightarrow> nat \<Rightarrow> nat \<Rightarrow> jsstring" where
  "substring s i j = take (j - i) (drop i s)"

definition trim :: "jsstring \<Rightarrow> jsstring" where
  "trim s = rev (dropWhile isSpace (rev (dropWhile isSpace s)))"

text \<open>
  \<open>text.replace(/M\s*/g, "")\<close> for a literal marker \<open>M\<close>: the text is read from the
  left; where the marker starts, it and the white space after it are dropped and reading
  goes on behind them; any other character is kept.
\<close>

function removeFence :: "jsstring \<Rightarrow> jsstring \<Rightarrow> jsstring" where
  "removeFence m [] = []"
| "removeFence m (c # cs) =
     (if m \<noteq> [] \<and> take (length m) (c # cs) = m
      then removeFence m (dropWhile isSpace (drop (length m) (c # cs)))
      else c # removeFence m cs)"
  by pat_completeness auto
termination
proof (relation "measure (\<lambda>(m, s). length s)")
  show "wf (measure (\<lambda>(m, s). length s))" by simp
next
  fix m :: jsstring and c cs
  assume "m \<noteq> [] \<and> take (length m) (c # cs) = m"
  then have "length (drop (length m) (c # cs)) < length (c # cs)"
    by (cases m) auto
  moreover have "length (dropWhile isSpace (drop (length m) (c # cs)))
      \<le> length (drop (length m) (c # cs))"
    by (rule length_dropWhile_le)
  ultimately show "((m, dropWhile isSpace (drop (length m) (c # cs))), (m, c # cs))
      \<in> measure (\<lambda>(m, s). length s)"
    by simp
next
  fix m :: jsstring and c cs
  show "((m, cs), (m, c # cs)) \<in> measure (\<lambda>(m, s). length s)" by simp
qed

text \<open>\<open>text.replace(/\r\n/g, "\n")\<close>\<close>

fun replaceCRLF :: "jsstring \<Rightarrow> jsstring" where
  "replaceCRLF (c # d # cs) =
     (if c = 13 \<and> d = 10 then 10 # replaceCRLF cs else c # replaceCRLF (d # cs))"
| "replaceCRLF cs = cs"

text \<open>The first statement of \<open>extractJson\<close>: the cleaned text.\<close>

definition cleanText :: "jsstring \<Rightarrow> jsstring" where
  "cleanText text =
     trim (filter (\<lambda>c. \<not> isControl c)
       (replaceCRLF (removeFence (js ''```'') (removeFence (js ''```json'') text))))"

section \<open>Values of the host language and \<open>JSON.parse\<close>\<close>

text \<open>
  A number literal of a JSON text is kept as its parts: the sign, the digits of the integer
  part, the digits of the fraction and the decimal exponent. The program only asks whether
  a number is zero and what its string conversion is; the first is decided on the parts,
  the second is a capability of the engine (see \<open>numberToString\<close> below).
\<close>

datatype jsnumber = NumLit bool "nat list" "nat list" int

datatype jsval =
    Undefined
  | Null
  | Bool bool
  | Num jsnumber
  | Str jsstring
  | Arr "jsval list"
  | Obj "(jsstring \<times> jsval) list"

text \<open>
  An object is the list of its own properties, each name once. Writing a property
  replaces the value of a name that is present and appends a new name otherwise.
\<close>

fun setProp :: "(jsstring \<times> jsval) list \<Rightarrow> jsstring \<Rightarrow> jsval \<Rightarrow> (jsstring \<times> jsval) list" where
  "setProp [] k v = [(k, v)]"
| "setProp ((k', v') # ps) k v =
     (if k' = k then (k, v) # ps else (k', v') # setProp ps k v)"

definition objectOf :: "(jsstring \<times> jsval) list \<Rightarrow> (jsstring \<times> jsval) list" where
  "objectOf members = foldl (\<lambda>ps (k, v). setProp ps k v) [] members"

subsection \<open>The JSON grammar\<close>

definition isJsonWs :: "nat \<Rightarrow> bool" where
  "isJsonWs c \<longleftrightarrow> c = 32 \<or> c = 9 \<or> c = 10 \<or> c = 13"

definition skipWs :: "jsstring \<Rightarrow> jsstring" where
  "skipWs s = dropWhile isJsonWs s"

definition hexValue :: "nat \<Rightarrow> nat option" where
  "hexValue c =
     (if 48 \<le> c \<and> c \<le> 57 then Some (c - 48)
      else if 97 \<le> c \<and> c \<le> 102 then Some (c - 87)
      else if 65 \<le> c \<and> c \<le> 70 then Some (c - 55)
      else None)"

definition simpleEscape :: "nat \<Rightarrow> nat option" where
  "simpleEscape c =
     (if c = DQUOTE then Some DQUOTE
      else if c = BACKSLASH then Some BACKSLASH
      else if c = 47 then Some 47
      else if c = 98 then Some 8
      else if c = 102 then Some 12
      else if c = 110 then Some 10
      else if c = 114 then Some 13
      else if c = 116 then Some 9
      else None)"

text \<open>
  The characters of a string literal after its opening quote, up to the closing quote:
  the value of the string and the text behind it.
\<close>

fun parseChars :: "jsstring \<Rightarrow> (jsstring \<times> jsstring) option" where
  "parseChars [] = None"
| "parseChars (c # cs) =
     (if c = DQUOTE then Some ([], cs)
      else if c = BACKSLASH then
        (case cs of
           [] \<Rightarrow> None
         | e # r \<Rightarrow>
             if e = 117 then
               (case r of
                  h1 # h2 # h3 # h4 # r' \<Rightarrow>
                    (case (hexValue h1, hexValue h2, hexValue h3, hexValue h4) of
                       (Some a, Some b, Some c', Some d) \<Rightarrow>
                         (case parseChars r' of
                            Some (v, rest) \<Rightarrow> Some ((((a * 16 + b) * 16 + c') * 16 + d) # v, rest)
                          | None \<Rightarrow> None)
                     | _ \<Rightarrow> None)
                | _ \<Rightarrow> None)
             else
               (case simpleEscape e of
                  Some u \<Rightarrow>
                    (case parseChars r of
                       Some (v, rest) \<Rightarrow> Some (u # v, rest)
                     | None \<Rightarrow> None)
                | None \<Rightarrow> None))
      else if c < 32 then None
      else
        (case parseChars cs of
           Some (v, rest) \<Rightarrow> Some (c # v, rest)
         | None \<Rightarrow> None))"

text \<open>
  A number: \<open>-? (0 | [1-9][0-9]*) (\.[0-9]+)? ([eE][+-]?[0-9]+)?\<close>.
\<close>

definition digitsValue :: "nat list \<Rightarrow> nat" where
  "digitsValue ds = foldl (\<lambda>n d. 10 * n + (d - 48)) 0 ds"

definition parseExponent :: "jsstring \<Rightarrow> (int \<times> jsstring) option" where
  "parseExponent s =
     (case s of
        [] \<Rightarrow> Some (0, s)
      | c # cs \<Rightarrow>
          if c = 101 \<or> c = 69 then
            (let neg = (case cs of [] \<Rightarrow> False | d # _ \<Rightarrow> d = 45);
                 signed = (case cs of [] \<Rightarrow> False | d # _ \<Rightarrow> d = 45 \<or> d = 43);
                 ds = (if signed then tl cs else cs);
                 es = takeWhile isDigit ds
             in if es = [] then None
                else Some ((if neg then - int (digitsValue es) else int (digitsValue es)),
                           dropWhile isDigit ds))
          else Some (0, s))"

definition parseFraction :: "jsstring \<Rightarrow> (nat list \<times> jsstring) option" where
  "parseFraction s =
     (case s of
        [] \<Rightarrow> Some ([], s)
      | c # cs \<Rightarrow>
          if c = 46 then
            (if takeWhile isDigit cs = [] then None
             else Some (takeWhile isDigit cs, dropWhile isDigit cs))
          else Some ([], s))"

definition parseNumber :: "jsstring \<Rightarrow> (jsval \<times> jsstring) option" where
  "parseNumber s =
     (let neg = (case s of [] \<Rightarrow> False | c # _ \<Rightarrow> c = 45);
          s1 = (if neg then tl s else s);
          ip = takeWhile isDigit s1;
          s2 = dropWhile isDigit s1
      in if ip = [] \<or> (hd ip = 48 \<and> length ip > 1) then None
         else
           (case parseFraction s2 of
              None \<Rightarrow> None
            | Some (fp, s3) \<Rightarrow>
                (case parseExponent s3 of
                   None \<Rightarrow> None
                 | Some (ex, s4) \<Rightarrow> Some (Num (NumLit neg ip fp ex), s4))))"

definition parseLiteral :: "jsstring \<Rightarrow> (jsval \<times> jsstring) option" where
  "parseLiteral s =
     (if take 4 s = js ''true'' then Some (Bool True, drop 4 s)
      else if take 5 s = js ''false'' then Some (Bool False, drop 5 s)
      else if take 4 s = js ''null'' then Some (Null, drop 4 s)
      else parseNumber s)"

text \<open>
  Values, the members of an object and the elements of an array. The first argument
  bounds the depth of the calls. \<open>JSON_parse\<close> starts with twice the length of the text
  and one more, a bound that is never used up: \<open>JSON_parse_fuel\<close> below shows that any
  larger bound gives the same result.
\<close>

fun parseValue :: "nat \<Rightarrow> jsstring \<Rightarrow> (jsval \<times> jsstring) option"
  and parseMembers :: "nat \<Rightarrow> jsstring \<Rightarrow> ((jsstring \<times> jsval) list \<times> jsstring) option"
  and parseElements :: "nat \<Rightarrow> jsstring \<Rightarrow> (jsval list \<times> jsstring) option"
where
  "parseValue 0 s = None"
| "parseValue (Suc n) s =
     (case skipWs s of
        [] \<Rightarrow> None
      | c # cs \<Rightarrow>
          if c = LBRACE then
            (case skipWs cs of
               [] \<Rightarrow> None
             | d # ds \<Rightarrow>
                 if d = RBRACE then Some (Obj [], ds)
                 else (case parseMembers n (d # ds) of
                         None \<Rightarrow> None
                       | Some (ms, r) \<Rightarrow> Some (Obj (objectOf ms), r)))
          else if c = LBRACKET then
            (case skipWs cs of
               [] \<Rightarrow> None
             | d # ds \<Rightarrow>
                 if d = RBRACKET then Some (Arr [], ds)
                 else (case parseElements n (d # ds) of
                         None \<Rightarrow> None
                       | Some (vs, r) \<Rightarrow> Some (Arr vs, r)))
          else if c = DQUOTE then
            (case parseChars cs of
               None \<Rightarrow> None
             | Some (v, r) \<Rightarrow> Some (Str v, r))
          else parseLiteral (c # cs))"
| "parseMembers 0 s = None"
| "parseMembers (Suc n) s =
     (case skipWs s of
        [] \<Rightarrow> None
      | q # cs \<Rightarrow>
          if q \<noteq> DQUOTE then None
          else
            (case parseChars cs of
               None \<Rightarrow> None
             | Some (k, r1) \<Rightarrow>
                 (case skipWs r1 of
                    [] \<Rightarrow> None
                  | col # r2 \<Rightarrow>
                      if col \<noteq> COLON then None
                      else
                        (case parseValue n r2 of
                           None \<Rightarrow> None
                         | Some (v, r3) \<Rightarrow>
                             (case skipWs r3 of
                                [] \<Rightarrow> None
                              | x # r4 \<Rightarrow>
                                  if x = RBRACE then Some ([(k, v)], r4)
                                  else if x = COMMA then
                                    (case parseMembers n r4 of
                                       None \<Rightarrow> None
                                     | Some (ms, r5) \<Rightarrow> Some ((k, v) # ms, r5))
                                  else None)))))"
| "parseElements 0 s = None"
| "parseElements (Suc n) s =
     (case parseValue n s of
        None \<Rightarrow> None
      | Some (v, r1) \<Rightarrow>
          (case skipWs r1 of
             [] \<Rightarrow> None
           | x # r2 \<Rightarrow>
               if x = RBRACKET then Some ([v], r2)
               else if x = COMMA then
                 (case parseElements n r2 of
                    None \<Rightarrow> None
                  | Some (vs, r3) \<Rightarrow> Some (v # vs, r3))
               else None))"

text \<open>\<open>JSON.parse(text)\<close>: the value, or \<open>None\<close> where the engine throws a SyntaxError.\<close>

definition JSON_parse :: "jsstring \<Rightarrow> jsval option" where
  "JSON_parse s =
     (case parseValue (Suc (2 * length s)) s of
        None \<Rightarrow> None
      | Some (v, rest) \<Rightarrow> if skipWs rest = [] then Some v else None)"

section \<open>Operators of the host language used by the program\<close>

text \<open>
  A number literal denotes zero when its digits are all zero, or when its value is at most
  \<open>2 ^ -1075\<close>, half of the least positive double, and so rounds to zero.
\<close>

fun numIsZero :: "jsnumber \<Rightarrow> bool" where
  "numIsZero (NumLit neg ip fp ex) =
     (let m = digitsValue (ip @ fp); e = ex - int (length fp)
      in m = 0 \<or> (e < 0 \<and> m * 2 ^ 1075 \<le> 10 ^ nat (- e)))"

text \<open>The conversion to a boolean made by \<open>&&\<close>, \<open>||\<close>, \<open>!\<close> and \<open>if\<close>.\<close>

fun truthy :: "jsval \<Rightarrow> bool" where
  "truthy Undefined = False"
| "truthy Null = False"
| "truthy (Bool b) = b"
| "truthy (Num n) = (\<not> numIsZero n)"
| "truthy (Str s) = (s \<noteq> [])"
| "truthy (Arr xs) = True"
| "truthy (Obj ps) = True"

datatype jstype = TUndefined | TObject | TBoolean | TNumber | TString

fun typeOf :: "jsval \<Rightarrow> jstype" where
  "typeOf Undefined = TUndefined"
| "typeOf Null = TObject"
| "typeOf (Bool b) = TBoolean"
| "typeOf (Num n) = TNumber"
| "typeOf (Str s) = TString"
| "typeOf (Arr xs) = TObject"
| "typeOf (Obj ps) = TObject"

text \<open>
  \<open>v.name\<close> for the names the program reads (\<open>tool\<close>, \<open>args\<close>, \<open>query\<close>,
  \<open>bookingId\<close>, \<open>event\<close>, \<open>start\<close>, ...): none of them is an array index, \<open>length\<close>
  or a property of a built-in prototype, so the value is the own property of an object
  and \<open>undefined\<close> on anything else. Reading a property of \<open>null\<close> or \<open>undefined\<close>
  throws; the program does it at two places only, which \<open>coerceTime\<close> below spells out.
\<close>

fun getProp :: "jsval \<Rightarrow> jsstring \<Rightarrow> jsval" where
  "getProp (Obj ps) k = (case map_of ps k of Some v \<Rightarrow> v | None \<Rightarrow> Undefined)"
| "getProp v k = Undefined"

text \<open>\<open>a || b\<close>\<close>

definition orElse :: "jsval \<Rightarrow> jsval \<Rightarrow> jsval" where
  "orElse a b = (if truthy a then a else b)"

section \<open>The tool-call extractor\<close>

text \<open>
  \<open>parsed && typeof parsed === 'object' && parsed.tool\<close>: the test a candidate's value
  has to pass.
\<close>

definition toolBearing :: "jsval \<Rightarrow> bool" where
  "toolBearing parsed \<longleftrightarrow>
     truthy parsed \<and> typeOf parsed = TObject \<and> truthy (getProp parsed (js ''tool''))"

text \<open>Whether \<open>extractJson\<close> returns a candidate text once it has cut it out.\<close>

definition accepts :: "jsstring \<Rightarrow> bool" where
  "accepts candidate \<longleftrightarrow>
     (case JSON_parse candidate of None \<Rightarrow> False | Some parsed \<Rightarrow> toolBearing parsed)"

text \<open>
  The first loop: \<open>for (let i = clean.length - 1; i >= 0; i--) if (clean[i] === '}')
  closingIndices.push(i)\<close>.
\<close>

definition closingIndices :: "jsstring \<Rightarrow> nat list" where
  "closingIndices clean = filter (\<lambda>i. clean ! i = RBRACE) (rev [0..<length clean])"

text \<open>
  The inner loop \<open>for (let i = closeIdx; i >= 0; i--)\<close>. The last argument is the number
  of indices still to visit, \<open>i + 1\<close>; \<open>balance\<close> is the counter as the iteration finds it.
\<close>

fun scanBack :: "jsstring \<Rightarrow> nat \<Rightarrow> int \<Rightarrow> nat \<Rightarrow> jsstring option" where
  "scanBack clean closeIdx balance 0 = None"
| "scanBack clean closeIdx balance (Suc i) =
     (let b1 = (if clean ! i = RBRACE then balance + 1 else balance);
          b2 = (if clean ! i = LBRACE then b1 - 1 else b1)
      in if b2 = 0 \<and> accepts (substring clean i (closeIdx + 1))
         then Some (substring clean i (closeIdx + 1))
         else scanBack clean closeIdx b2 i)"

text \<open>The outer loop \<open>for (const closeIdx of closingIndices)\<close>.\<close>

fun scanClosings :: "jsstring \<Rightarrow> nat list \<Rightarrow> jsstring option" where
  "scanClosings clean [] = None"
| "scanClosings clean (closeIdx # rest) =
     (case scanBack clean closeIdx 0 (Suc closeIdx) of
        Some candidate \<Rightarrow> Some candidate
      | None \<Rightarrow> scanClosings clean rest)"

definition extractJson :: "jsstring \<Rightarrow> jsstring option" where
  "extractJson text = scanClosings (cleanText text) (closingIndices (cleanText text))"

section \<open>String conversion and \<open>parseInt\<close>\<close>

fun joinWith :: "jsstring \<Rightarrow> jsstring list \<Rightarrow> jsstring" where
  "joinWith sep [] = []"
| "joinWith sep [x] = x"
| "joinWith sep (x # y # ys) = x @ sep @ joinWith sep (y # ys)"

text \<open>
  \<open>ToString\<close>, as \<open>parseInt\<close> applies it to its argument. The conversion of a number
  is left to the engine (the first argument). An array is its elements joined by commas,
  \<open>null\<close> and \<open>undefined\<close> elements counting as empty. An object is
  \<open>[object Object]\<close> unless a property of its own hides \<open>toString\<close>: a JSON value is
  never callable, so the conversion then throws a TypeError (\<open>None\<close>).
\<close>

fun toStr :: "(jsnumber \<Rightarrow> jsstring) \<Rightarrow> jsval \<Rightarrow> jsstring option" where
  "toStr f Undefined = Some (js ''undefined'')"
| "toStr f Null = Some (js ''null'')"
| "toStr f (Bool b) = Some (if b then js ''true'' else js ''false'')"
| "toStr f (Num n) = Some (f n)"
| "toStr f (Str s) = Some s"
| "toStr f (Arr xs) =
     map_option (joinWith [COMMA])
       (those (map (\<lambda>x. if x = Null \<or> x = Undefined then Some [] else toStr f x) xs))"
| "toStr f (Obj ps) =
     (if js ''toString'' \<in> set (map fst ps) then None else Some (js ''[object Object]''))"

definition radixValue :: "nat \<Rightarrow> nat list \<Rightarrow> nat" where
  "radixValue r ds = foldl (\<lambda>n d. r * n + d) 0 ds"

text \<open>
  The numbers \<open>parseInt\<close> can return besides \<open>NaN\<close>: a double that is a whole
  number, given by its sign (\<open>True\<close> is minus; a zero keeps its sign) and its
  magnitude, or an infinity.
\<close>

datatype jsdouble = Whole bool nat | Infinite bool

text \<open>The number of binary digits of a natural number.\<close>

fun bitLength :: "nat \<Rightarrow> nat" where
  "bitLength n = (if n = 0 then 0 else Suc (bitLength (n div 2)))"

declare bitLength.simps [simp del]

text \<open>
  The double nearest to a whole number of magnitude \<open>n\<close> that has more than 53 binary
  digits: the 53 leading digits are kept and the rest is rounded to the nearest, a tie to
  the even neighbour; a result of more than 1024 binary digits, that is one that reaches
  \<open>2 ^ 1024\<close>, is an infinity.
\<close>

definition roundedDouble :: "bool \<Rightarrow> nat \<Rightarrow> jsdouble" where
  "roundedDouble neg n =
     (let e = bitLength n - 53;
          q = n div 2 ^ e;
          r = n mod 2 ^ e;
          q' = (if 2 ^ e < 2 * r \<or> (2 * r = 2 ^ e \<and> odd q) then q + 1 else q)
      in if 1024 < bitLength q' + e then Infinite neg else Whole neg (q' * 2 ^ e))"

text \<open>
  The double nearest to a whole number of magnitude \<open>n\<close>: the number itself below
  \<open>2 ^ 53 = 9007199254740992\<close>, the rounded number from there on. This is the rounding
  the engine of the service applies to the digits \<open>parseInt\<close> reads.
\<close>

definition nearestDouble :: "bool \<Rightarrow> nat \<Rightarrow> jsdouble" where
  "nearestDouble neg n =
     (if n < 9007199254740992 then Whole neg n else roundedDouble neg n)"

text \<open>
  \<open>parseInt(string)\<close> with no radix: leading white space is skipped, a sign is read, a
  prefix \<open>0x\<close> or \<open>0X\<close> selects radix 16, and the longest prefix of digits of the radix
  is the number; \<open>None\<close> is \<open>NaN\<close>. The result is the double nearest to the integer
  the digits denote.
\<close>

definition parseInt :: "jsstring \<Rightarrow> jsdouble option" where
  "parseInt input =
     (let s = dropWhile isSpace input;
          neg = (case s of [] \<Rightarrow> False | c # _ \<Rightarrow> c = 45);
          s1 = (case s of [] \<Rightarrow> [] | c # cs \<Rightarrow> if c = 43 \<or> c = 45 then cs else s);
          hex = (case s1 of c # d # _ \<Rightarrow> c = 48 \<and> (d = 120 \<or> d = 88) | _ \<Rightarrow> False);
          z = (if hex then those (takeWhile (\<lambda>h. h \<noteq> None) (map hexValue (drop 2 s1)))
               else Some (map (\<lambda>c. c - 48) (takeWhile isDigit s1)))
      in case z of
           None \<Rightarrow> None
         | Some ds \<Rightarrow>
             if ds = [] then None
             else Some (nearestDouble neg (radixValue (if hex then 16 else 10) ds)))"

section \<open>The collaborators of the orchestrator\<close>

text \<open>An exception value and its message.\<close>

datatype exn = Error jsstring

datatype role = System | User | Assistant

type_synonym message = "role \<times> jsstring"

text \<open>A part of the content an external tool returns.\<close>

datatype part = TextPart jsstring | OtherPart

text \<open>
  What a request reaches outside the module: the model endpoints, the four booking tools,
  the client of the external provider, and the engine's conversion of a number to a
  string. A call either throws (\<open>Inl\<close>) or returns. A completion returns the content of
  its first choice, \<open>None\<close> where \<open>choices[0]?.message?.content\<close> is \<open>undefined\<close>.
  \<open>instruction\<close> is the text \<open>buildSystemInstruction()\<close> yields during the request.
\<close>

record env =
  instruction :: jsstring
  chatCompletion :: "jsstring \<Rightarrow> message list \<Rightarrow> exn + jsstring option"
  searchTrips :: "jsval \<Rightarrow> exn + jsstring"
  getBookingDetails :: "jsdouble \<Rightarrow> exn + jsstring"
  cancelTicket :: "jsdouble \<Rightarrow> exn + jsstring"
  bookTicket :: "jsval \<Rightarrow> int \<Rightarrow> jsval \<Rightarrow> jsval \<Rightarrow> jsval \<Rightarrow> exn + jsstring"
  callTool :: "jsstring \<Rightarrow> jsval \<Rightarrow> exn + part list"
  numberToString :: "jsnumber \<Rightarrow> jsstring"

text \<open>
  The calls a request makes, in their order, and the line logged on entering the branch
  of the external tools. The number of a booking call is the result of \<open>parseInt\<close>.
\<close>

datatype event =
    ChatCompletionCall jsstring "message list"
  | SearchTripsCall jsval
  | GetBookingDetailsCall jsdouble
  | CancelTicketCall jsdouble
  | BookTicketCall jsval int jsval jsval jsval
  | ExecutingMcpTool jsstring
  | CallToolCall jsstring jsval

section \<open>The external connector\<close>

datatype client = Client nat

record mcpTool =
  toolName :: jsstring
  toolDescription :: jsstring

text \<open>
  The two module variables, and a count of the transports started so far, which the
  source does not keep but every call of \<open>client.connect\<close> advances.
\<close>

record connector =
  mcpClient :: "client option"
  mcpToolsOrchestration :: "mcpTool list"
  dials :: nat

definition initialConnector :: connector where
  "initialConnector = \<lparr>mcpClient = None, mcpToolsOrchestration = [], dials = 0\<rparr>"

text \<open>The outcome of \<open>Promise.race([connectionPromise, timeoutPromise])\<close>.\<close>

datatype handshake = Established | Refused | TimedOut

definition fallbackTools :: "mcpTool list" where
  "fallbackTools =
     [\<lparr>toolName = js ''add-account'',
       toolDescription = js ''Authenticate a Google account (use this if 'No authenticated accounts' error occurs)''\<rparr>,
      \<lparr>toolName = js ''create-event'',
       toolDescription = js ''Create a new event in Google Calendar''\<rparr>,
      \<lparr>toolName = js ''list-events'',
       toolDescription = js ''List events from calendar''\<rparr>]"

text \<open>
  \<open>connectToMcpServer\<close>: the outcome of the handshake and of \<open>client.listTools()\<close> are
  arguments; the result is the state of the module afterwards.
\<close>

definition connectToMcpServer :: "handshake \<Rightarrow> exn + mcpTool list \<Rightarrow> connector \<Rightarrow> connector" where
  "connectToMcpServer h listed c =
     (if mcpClient c \<noteq> None then c
      else
        (case h of
           Established \<Rightarrow>
             (case listed of
                Inr tools \<Rightarrow>
                  c\<lparr>dials := Suc (dials c), mcpClient := Some (Client (Suc (dials c))),
                    mcpToolsOrchestration := tools\<rparr>
              | Inl e \<Rightarrow>
                  c\<lparr>dials := Suc (dials c), mcpClient := Some (Client (Suc (dials c))),
                    mcpToolsOrchestration := fallbackTools\<rparr>)
         | Refused \<Rightarrow> c\<lparr>dials := Suc (dials c)\<rparr>
         | TimedOut \<Rightarrow> c\<lparr>dials := Suc (dials c)\<rparr>))"

section \<open>The argument fix-ups of the external tools\<close>

fun decimal :: "nat \<Rightarrow> jsstring" where
  "decimal n = (if n < 10 then [48 + n] else decimal (n div 10) @ [48 + n mod 10])"

text \<open>
  \<open>{ ...v }\<close>: the own enumerable properties of a value. An array and a string give
  their elements under their indices, the other primitives give nothing.
\<close>

fun spread :: "jsval \<Rightarrow> (jsstring \<times> jsval) list" where
  "spread (Obj ps) = ps"
| "spread (Arr xs) = zip (map decimal [0..<length xs]) xs"
| "spread (Str s) = zip (map decimal [0..<length s]) (map (\<lambda>c. Str [c]) s)"
| "spread v = []"

definition assignAll :: "(jsstring \<times> jsval) list \<Rightarrow> (jsstring \<times> jsval) list \<Rightarrow> (jsstring \<times> jsval) list" where
  "assignAll ps qs = foldl (\<lambda>acc (k, v). setProp acc k v) ps qs"

definition deleteProp :: "(jsstring \<times> jsval) list \<Rightarrow> jsstring \<Rightarrow> (jsstring \<times> jsval) list" where
  "deleteProp ps k = filter (\<lambda>(k', v). k' \<noteq> k) ps"

definition nullPropertyError :: exn where
  "nullPropertyError = Error (js ''Cannot read properties of null (reading 'dateTime')'')"

text \<open>
  \<open>v.dateTime || v.date\<close> for a value whose \<open>typeof\<close> is \<open>'object'\<close>: \<open>null\<close> is such
  a value, and reading its property throws.
\<close>

definition coerceTime :: "jsval \<Rightarrow> exn + jsval" where
  "coerceTime v =
     (if v = Null then Inl nullPropertyError
      else Inr (orElse (getProp v (js ''dateTime'')) (getProp v (js ''date''))))"

text \<open>\<open>if (typeof t.k === 'object') t.k = t.k.dateTime || t.k.date\<close>\<close>

definition fixTime :: "(jsstring \<times> jsval) list \<Rightarrow> jsstring \<Rightarrow> exn + (jsstring \<times> jsval) list" where
  "fixTime t k =
     (if typeOf (getProp (Obj t) k) = TObject then
        (case coerceTime (getProp (Obj t) k) of
           Inl e \<Rightarrow> Inl e
         | Inr v \<Rightarrow> Inr (setProp t k v))
      else Inr t)"

definition normalizeCreateEvent :: "jsval \<Rightarrow> exn + jsval" where
  "normalizeCreateEvent args =
     (let t0 = spread args;
          t1 = (if \<not> truthy (getProp (Obj t0) (js ''account''))
                then setProp t0 (js ''account'') (Str (js ''normal'')) else t0);
          t2 = (if \<not> truthy (getProp (Obj t1) (js ''calendarId''))
                then setProp t1 (js ''calendarId'') (Str (js ''primary'')) else t1);
          evt = getProp (Obj t2) (js ''event'');
          t3 = (if truthy evt then
                  deleteProp
                    (assignAll (assignAll t2 (spread evt))
                       [(js ''summary'', orElse (getProp evt (js ''summary'')) (getProp (Obj t2) (js ''summary''))),
                        (js ''description'', orElse (getProp evt (js ''description'')) (getProp (Obj t2) (js ''description''))),
                        (js ''start'', orElse (getProp evt (js ''start'')) (getProp (Obj t2) (js ''start''))),
                        (js ''end'', orElse (getProp evt (js ''end'')) (getProp (Obj t2) (js ''end'')))])
                    (js ''event'')
                else t2)
      in case fixTime t3 (js ''start'') of
           Inl e \<Rightarrow> Inl e
         | Inr t4 \<Rightarrow>
             (case fixTime t4 (js ''end'') of
                Inl e \<Rightarrow> Inl e
              | Inr t5 \<Rightarrow> Inr (Obj t5)))"

definition normalizeListEvents :: "jsval \<Rightarrow> jsval" where
  "normalizeListEvents args =
     (let t0 = spread args;
          account = getProp (Obj t0) (js ''account'');
          t1 = (if \<not> truthy account \<or> account = Str (js ''value'') \<or> account = Str (js ''your_account'')
                then setProp t0 (js ''account'') (Str (js ''normal'')) else t0);
          calendarId = getProp (Obj t1) (js ''calendarId'');
          t2 = (if \<not> truthy calendarId \<or> calendarId = Str (js ''value'')
                     \<or> calendarId = Str (js ''your_calendar_id'')
                then setProp t1 (js ''calendarId'') (Str (js ''primary'')) else t1);
          t3 = (if \<not> truthy (getProp (Obj t2) (js ''maxResults''))
                then setProp t2 (js ''maxResults'') (Num (NumLit False [53] [] 0)) else t2)
      in Obj t3)"

definition normalizeCreateCalendarEvent :: "jsval \<Rightarrow> exn + jsval" where
  "normalizeCreateCalendarEvent args =
     (let evt = getProp args (js ''event'') in
      if truthy evt then
        (if typeOf (getProp evt (js ''start'')) = TObject \<or> typeOf (getProp evt (js ''end'')) = TObject
         then
           (case (if typeOf (getProp evt (js ''start'')) = TObject
                  then coerceTime (getProp evt (js ''start'')) else Inr (getProp evt (js ''start''))) of
              Inl e \<Rightarrow> Inl e
            | Inr start \<Rightarrow>
                (case (if typeOf (getProp evt (js ''end'')) = TObject
                       then coerceTime (getProp evt (js ''end'')) else Inr (getProp evt (js ''end''))) of
                   Inl e \<Rightarrow> Inl e
                 | Inr end' \<Rightarrow>
                     Inr (Obj (assignAll (spread args)
                            [(js ''event'',
                              Obj (assignAll (spread evt) [(js ''start'', start), (js ''end'', end')]))]))))
         else Inr args)
      else
        Inr (Obj [(js ''calendarId'', orElse (getProp args (js ''calendarId'')) (Str (js ''primary''))),
                  (js ''event'', Obj (spread args))]))"

text \<open>\<open>transformedArgs\<close> as it reaches \<open>mcpClient.callTool\<close>, or the exception on the way.\<close>

definition normalizeArgs :: "jsstring \<Rightarrow> jsval \<Rightarrow> exn + jsval" where
  "normalizeArgs tool args =
     (if tool = js ''create-event'' then normalizeCreateEvent args
      else if tool = js ''list-events'' then Inr (normalizeListEvents args)
      else if tool = js ''create_calendar_event'' then normalizeCreateCalendarEvent args
      else Inr args)"

section \<open>The tool dispatcher\<close>

text \<open>How the \<open>switch\<close> statement is left: with a tool result that goes on to the summary
  turn, with a \<open>return\<close> of a fixed message, or with an exception.\<close>

datatype step = ToolResult jsstring | Return jsstring | Thrown exn

definition toolStep :: "exn + jsstring \<Rightarrow> step" where
  "toolStep r = (case r of Inl e \<Rightarrow> Thrown e | Inr t \<Rightarrow> ToolResult t)"

definition checkStatusMessage :: jsstring where
  "checkStatusMessage = js ''I need a valid booking ID number to check the status.''"

definition cancelMessage :: jsstring where
  "cancelMessage = js ''I need a valid booking ID number to cancel.''"

definition unknownActionMessage :: jsstring where
  "unknownActionMessage = js ''I couldn't understand which action to perform. Could you rephrase?''"

definition apologyMessage :: jsstring where
  "apologyMessage =
     js ''I'm having trouble processing your request right now. Please try again in a moment.''"

definition truncationMarker :: jsstring where
  "truncationMarker = 10 # js ''... (Output truncated due to length limits)''"

text \<open>\<open>if (toolResult && toolResult.length > 4000) toolResult = toolResult.substring(0, 4000) + marker\<close>\<close>

definition truncateResult :: "jsstring \<Rightarrow> jsstring" where
  "truncateResult toolResult =
     (if toolResult \<noteq> [] \<and> length toolResult > 4000
      then substring toolResult 0 4000 @ truncationMarker
      else toolResult)"

text \<open>\<open>content.map(c => c.type === 'text' ? c.text : '').join('\n')\<close>\<close>

definition contentText :: "part list \<Rightarrow> jsstring" where
  "contentText content =
     joinWith [10] (map (\<lambda>c. case c of TextPart t \<Rightarrow> t | OtherPart \<Rightarrow> []) content)"

fun includesText :: "jsstring \<Rightarrow> jsstring \<Rightarrow> bool" where
  "includesText [] p = (p = [])"
| "includesText (c # cs) p = (take (length p) (c # cs) = p \<or> includesText cs p)"

text \<open>The \<open>catch (mcpError)\<close> block.\<close>

definition mcpFailureText :: "jsstring \<Rightarrow> exn \<Rightarrow> jsstring" where
  "mcpFailureText tool e =
     (if includesText tool (js ''calendar'')
      then js ''I can see you want to use the calendar feature, but the Google Calendar service isn't fully configured yet. Please ask your administrator to set up the calendar credentials.''
      else js ''Calendar operation failed: '' @ (case e of Error m \<Rightarrow> m))"

text \<open>The body of \<open>if (mcpClient && mcpToolsOrchestration.some(...))\<close>.\<close>

definition mcpDispatch :: "env \<Rightarrow> jsstring \<Rightarrow> jsval \<Rightarrow> step \<times> event list" where
  "mcpDispatch env tool args =
     (case normalizeArgs tool args of
        Inl e \<Rightarrow> (ToolResult (mcpFailureText tool e), [ExecutingMcpTool tool])
      | Inr transformedArgs \<Rightarrow>
          (case callTool env tool transformedArgs of
             Inl e \<Rightarrow>
               (ToolResult (mcpFailureText tool e),
                [ExecutingMcpTool tool, CallToolCall tool transformedArgs])
           | Inr content \<Rightarrow>
               (ToolResult (truncateResult (contentText content)),
                [ExecutingMcpTool tool, CallToolCall tool transformedArgs])))"

definition conversionError :: exn where
  "conversionError = Error (js ''Cannot convert object to primitive value'')"

text \<open>\<open>parseInt(toolCall.args.bookingId)\<close>: an exception of the conversion, \<open>NaN\<close>, or
  a number.\<close>

definition parseBookingId :: "env \<Rightarrow> jsval \<Rightarrow> exn + jsdouble option" where
  "parseBookingId env args =
     (case toStr (numberToString env) (getProp args (js ''bookingId'')) of
        None \<Rightarrow> Inl conversionError
      | Some s \<Rightarrow> Inr (parseInt s))"

definition builtinTools :: "jsstring list" where
  "builtinTools =
     [js ''search_trips'', js ''get_booking_details'', js ''cancel_booking'', js ''book_ticket'']"

text \<open>The \<open>switch (toolCall.tool)\<close> statement, for a tool call that passed
  \<open>isValidToolCall\<close>.\<close>

definition dispatch :: "env \<Rightarrow> connector \<Rightarrow> int \<Rightarrow> jsstring \<Rightarrow> jsval \<Rightarrow> step \<times> event list" where
  "dispatch env conn userId tool args =
     (if tool = js ''search_trips'' then
        (toolStep (searchTrips env (getProp args (js ''query''))),
         [SearchTripsCall (getProp args (js ''query''))])
      else if tool = js ''get_booking_details'' then
        (case parseBookingId env args of
           Inl e \<Rightarrow> (Thrown e, [])
         | Inr None \<Rightarrow> (Return checkStatusMessage, [])
         | Inr (Some bookingId) \<Rightarrow>
             (toolStep (getBookingDetails env bookingId), [GetBookingDetailsCall bookingId]))
      else if tool = js ''cancel_booking'' then
        (case parseBookingId env args of
           Inl e \<Rightarrow> (Thrown e, [])
         | Inr None \<Rightarrow> (Return cancelMessage, [])
         | Inr (Some cancelId) \<Rightarrow>
             (toolStep (cancelTicket env cancelId), [CancelTicketCall cancelId]))
      else if tool = js ''book_ticket'' then
        (toolStep (bookTicket env (getProp args (js ''tripId'')) userId
                     (getProp args (js ''pickupId'')) (getProp args (js ''dropId''))
                     (getProp args (js ''amount''))),
         [BookTicketCall (getProp args (js ''tripId'')) userId
            (getProp args (js ''pickupId'')) (getProp args (js ''dropId''))
            (getProp args (js ''amount''))])
      else if mcpClient conn \<noteq> None \<and> tool \<in> set (map toolName (mcpToolsOrchestration conn))
      then mcpDispatch env tool args
      else (Return unknownActionMessage, []))"

section \<open>The conversation orchestrator\<close>

text \<open>\<open>obj && typeof obj.tool === "string" && obj.args && typeof obj.args === "object"\<close>\<close>

definition isValidToolCall :: "jsval \<Rightarrow> bool" where
  "isValidToolCall obj \<longleftrightarrow>
     truthy obj \<and> typeOf (getProp obj (js ''tool'')) = TString
     \<and> truthy (getProp obj (js ''args'')) \<and> typeOf (getProp obj (js ''args'')) = TObject"

definition stringOf :: "jsval \<Rightarrow> jsstring" where
  "stringOf v = (case v of Str s \<Rightarrow> s | _ \<Rightarrow> [])"

definition decisionTurn :: "env \<Rightarrow> jsstring \<Rightarrow> message list" where
  "decisionTurn env userMessage = [(System, instruction env), (User, userMessage)]"

definition summaryTurn :: "env \<Rightarrow> jsstring \<Rightarrow> jsstring \<Rightarrow> jsstring \<Rightarrow> message list" where
  "summaryTurn env userMessage jsonStr toolResult =
     [(System, instruction env), (User, userMessage), (Assistant, jsonStr),
      (User, js ''Tool Output: '' @ toolResult @ js ''. Please tell me what you did.'')]"

text \<open>
  Step D: the second completion. Its content is returned as it is, \<open>None\<close> being
  \<open>undefined\<close>; an exception reaches the inner \<open>catch\<close>, which returns \<open>content\<close>.
\<close>

definition summarize ::
  "env \<Rightarrow> jsstring \<Rightarrow> jsstring \<Rightarrow> jsstring \<Rightarrow> jsstring \<Rightarrow> jsstring \<Rightarrow> jsstring option \<times> event list" where
  "summarize env model userMessage jsonStr content toolResult =
     ((case chatCompletion env model (summaryTurn env userMessage jsonStr toolResult) of
         Inl e \<Rightarrow> Some content
       | Inr finalContent \<Rightarrow> finalContent),
      [ChatCompletionCall model (summaryTurn env userMessage jsonStr toolResult)])"

text \<open>One iteration of \<open>for (const model of models)\<close>: a \<open>return\<close> of the function, or
  \<open>continue\<close>.\<close>

datatype attempt = Replied "jsstring option" | NextModel

definition afterDecision ::
  "env \<Rightarrow> connector \<Rightarrow> jsstring \<Rightarrow> int \<Rightarrow> jsstring \<Rightarrow> jsstring \<Rightarrow> jsstring option \<times> event list" where
  "afterDecision env conn userMessage userId model content =
     (case extractJson content of
        None \<Rightarrow> (Some content, [])
      | Some jsonStr \<Rightarrow>
          if jsonStr = [] then (Some content, [])
          else
            (case JSON_parse jsonStr of
               None \<Rightarrow> (Some content, [])
             | Some toolCall \<Rightarrow>
                 if \<not> isValidToolCall toolCall then (Some content, [])
                 else
                   (case dispatch env conn userId (stringOf (getProp toolCall (js ''tool'')))
                           (getProp toolCall (js ''args'')) of
                      (Return text, evs) \<Rightarrow> (Some text, evs)
                    | (Thrown e, evs) \<Rightarrow> (Some content, evs)
                    | (ToolResult toolResult, evs) \<Rightarrow>
                        (fst (summarize env model userMessage jsonStr content toolResult),
                         evs @ snd (summarize env model userMessage jsonStr content toolResult)))))"

definition tryModel ::
  "env \<Rightarrow> connector \<Rightarrow> jsstring \<Rightarrow> int \<Rightarrow> jsstring \<Rightarrow> attempt \<times> event list" where
  "tryModel env conn userMessage userId model =
     (case chatCompletion env model (decisionTurn env userMessage) of
        Inl e \<Rightarrow> (NextModel, [ChatCompletionCall model (decisionTurn env userMessage)])
      | Inr c \<Rightarrow>
          (Replied (fst (afterDecision env conn userMessage userId model
                           (case c of None \<Rightarrow> [] | Some t \<Rightarrow> t))),
           ChatCompletionCall model (decisionTurn env userMessage)
             # snd (afterDecision env conn userMessage userId model
                      (case c of None \<Rightarrow> [] | Some t \<Rightarrow> t))))"

fun tryModels ::
  "env \<Rightarrow> connector \<Rightarrow> jsstring \<Rightarrow> int \<Rightarrow> jsstring list \<Rightarrow> jsstring option \<times> event list" where
  "tryModels env conn userMessage userId [] = (Some apologyMessage, [])"
| "tryModels env conn userMessage userId (model # rest) =
     (case tryModel env conn userMessage userId model of
        (Replied reply, evs) \<Rightarrow> (reply, evs)
      | (NextModel, evs) \<Rightarrow>
          (fst (tryModels env conn userMessage userId rest),
           evs @ snd (tryModels env conn userMessage userId rest)))"

definition models :: "jsstring list" where
  "models =
     [js ''mistralai/Mixtral-8x7B-Instruct-v0.1'',
      js ''NousResearch/Hermes-2-Pro-Mistral-7B'',
      js ''meta-llama/Meta-Llama-3-8B-Instruct'']"

text \<open>
  \<open>generateAIResponse(userMessage, userId)\<close>: the value the promise resolves to
  (\<open>None\<close> is \<open>undefined\<close>) and the calls made on the way. The state of the connector is
  read, never written.
\<close>

definition generateAIResponse ::
  "env \<Rightarrow> connector \<Rightarrow> jsstring \<Rightarrow> int \<Rightarrow> jsstring option \<times> event list" where
  "generateAIResponse env conn userMessage userId = tryModels env conn userMessage userId models"

section \<open>Vocabulary of the properties\<close>

text \<open>
  The endpoints \<open>failed\<close> are the ones in front of \<open>model\<close> in the priority list and
  their decision calls throw; the decision call of \<open>model\<close> returns \<open>content\<close>.
\<close>

definition answers :: "env \<Rightarrow> jsstring \<Rightarrow> jsstring list \<Rightarrow> jsstring \<Rightarrow> jsstring \<Rightarrow> bool" where
  "answers env userMessage failed model content \<longleftrightarrow>
     take (Suc (length failed)) models = failed @ [model]
     \<and> list_all (\<lambda>p. isl (chatCompletion env p (decisionTurn env userMessage))) failed
     \<and> chatCompletion env model (decisionTurn env userMessage) = Inr (Some content)"

text \<open>
  The extractor finds \<open>jsonStr\<close> in \<open>content\<close>, and \<open>jsonStr\<close> is a tool call that passes
  \<open>isValidToolCall\<close>, naming \<open>tool\<close> with the arguments \<open>args\<close>.
\<close>

definition decidesToolCall :: "jsstring \<Rightarrow> jsstring \<Rightarrow> jsstring \<Rightarrow> jsval \<Rightarrow> bool" where
  "decidesToolCall content jsonStr tool args \<longleftrightarrow>
     extractJson content = Some jsonStr
     \<and> (case JSON_parse jsonStr of
          None \<Rightarrow> False
        | Some toolCall \<Rightarrow>
            isValidToolCall toolCall \<and> getProp toolCall (js ''tool'') = Str tool
            \<and> getProp toolCall (js ''args'') = args)"

definition failedCalls :: "env \<Rightarrow> jsstring \<Rightarrow> jsstring list \<Rightarrow> event list" where
  "failedCalls env userMessage failed =
     map (\<lambda>p. ChatCompletionCall p (decisionTurn env userMessage)) failed"

text \<open>The count of closing braces less the count of opening braces of a text.\<close>

definition braceBalance :: "jsstring \<Rightarrow> int" where
  "braceBalance s = int (length (filter (\<lambda>c. c = RBRACE) s)) - int (length (filter (\<lambda>c. c = LBRACE) s))"

text \<open>
  The pieces of a text between any two positions, and the ones among them that
  \<open>extractJson\<close> would accept.
\<close>

definition acceptedPieces :: "jsstring \<Rightarrow> (nat \<times> nat) list" where
  "acceptedPieces s =
     filter (\<lambda>(i, j). accepts (substring s i j))
       (concat (map (\<lambda>j. map (\<lambda>i. (i, j)) [0..<j]) [0..<Suc (length s)]))"

text \<open>
  The objects of a text that carry a tool: the pieces that start with an opening brace,
  end with a closing brace and are accepted.
\<close>

definition objectPieces :: "jsstring \<Rightarrow> (nat \<times> nat) list" where
  "objectPieces s =
     filter (\<lambda>(i, j). if s ! i = LBRACE \<and> s ! (j - 1) = RBRACE
                       then accepts (substring s i j) else False)
       (concat (map (\<lambda>j. map (\<lambda>i. (i, j)) [0..<j]) [0..<Suc (length s)]))"

text \<open>
  \<open>obj\<close>, standing between \<open>pre\<close> and \<open>post\<close>, is the one tool-bearing object of the
  text, and it is balanced as the scan counts: it has as many closing as opening braces,
  the braces inside its string literals counted with the others.
\<close>

definition soleObject :: "jsstring \<Rightarrow> jsstring \<Rightarrow> jsstring \<Rightarrow> bool" where
  "soleObject pre obj post \<longleftrightarrow>
     braceBalance obj = 0
     \<and> objectPieces (pre @ obj @ post) = [(length pre, length pre + length obj)]"

text \<open>
  A scripted environment for the examples: the completion is given, the booking tools
  answer with fixed texts, the external tool with \<open>content\<close>, and numbers are printed as
  the digits of their integer part.
\<close>

definition scripted :: "(jsstring \<Rightarrow> message list \<Rightarrow> exn + jsstring option) \<Rightarrow> part list \<Rightarrow> env" where
  "scripted completion content =
     \<lparr>instruction = js ''You are the Travel Point AI Assistant.'',
      chatCompletion = completion,
      searchTrips = (\<lambda>query. Inr (js ''Found 2 trips'')),
      getBookingDetails = (\<lambda>bookingId. Inr (js ''Booking is confirmed'')),
      cancelTicket = (\<lambda>cancelId. Inr (js ''Booking cancelled'')),
      bookTicket = (\<lambda>tripId userId pickupId dropId amount. Inr (js ''Ticket booked'')),
      callTool = (\<lambda>tool arguments. Inr content),
      numberToString = (\<lambda>n. case n of NumLit neg ip fp ex \<Rightarrow> ip)\<rparr>"

text \<open>A completion that answers every decision turn with \<open>reply\<close> and every summary
  turn with \<open>final\<close>.\<close>

definition replying :: "jsstring \<Rightarrow> jsstring option \<Rightarrow> jsstring \<Rightarrow> message list \<Rightarrow> exn + jsstring option" where
  "replying reply final model messages =
     (if length messages = 2 then Inr (Some reply) else Inr final)"

text \<open>A completion whose first endpoint is down.\<close>

definition firstDown :: "jsstring \<Rightarrow> jsstring \<Rightarrow> message list \<Rightarrow> exn + jsstring option" where
  "firstDown reply model messages =
     (if model = js ''mistralai/Mixtral-8x7B-Instruct-v0.1''
      then Inl (Error (js ''Service Unavailable''))
      else Inr (Some reply))"

definition allDown :: "jsstring \<Rightarrow> message list \<Rightarrow> exn + jsstring option" where
  "allDown model messages = Inl (Error (js ''Service Unavailable''))"

section \<open>The parser does not depend on its bound\<close>

lemma skipWs_length: "length (skipWs s) \<le> length s"
  by (simp add: skipWs_def length_dropWhile_le)

lemma skipWs_Cons_length: "skipWs s = c # cs \<Longrightarrow> length cs < length s"
  using skipWs_length [of s] by simp

lemma parseChars_length: "parseChars s = Some (v, r) \<Longrightarrow> length r < length s"
proof (induction "length s" arbitrary: s v r rule: less_induct)
  case less
  show ?case
  proof (cases s)
    case Nil
    with less.prems show ?thesis by simp
  next
    case (Cons c cs)
    have ih: "parseChars t = Some (w, q) \<Longrightarrow> length t \<le> length cs \<Longrightarrow> length q < length t"
      for t w q
      using less.hyps [of t w q] Cons by simp
    from less.prems Cons show ?thesis
      by (auto split: if_splits list.splits option.splits prod.splits dest!: ih)
  qed
qed

lemma parseNumber_length: "parseNumber s = Some (v, r) \<Longrightarrow> length r \<le> length s"
proof -
  have d: "length (dropWhile isDigit t) \<le> length t" for t
    by (rule length_dropWhile_le)
  have e: "parseExponent t = Some (x, q) \<Longrightarrow> length q \<le> length t" for t x q
    using d [of "tl (tl t)"] d [of "tl t"]
    by (auto simp: parseExponent_def Let_def split: list.splits if_splits)
  have f: "parseFraction t = Some (x, q) \<Longrightarrow> length q \<le> length t" for t x q
    using d [of "tl t"]
    by (auto simp: parseFraction_def split: list.splits if_splits)
  assume "parseNumber s = Some (v, r)"
  then obtain fp s3 ex where 1: "parseFraction (dropWhile isDigit (if (case s of [] \<Rightarrow> False | c # _ \<Rightarrow> c = 45) then tl s else s)) = Some (fp, s3)"
    and 2: "parseExponent s3 = Some (ex, r)"
    by (auto simp: parseNumber_def Let_def split: if_splits option.splits)
  from f [OF 1] e [OF 2] d [of "tl s"] d [of s] show ?thesis
    by (auto split: if_splits list.splits)
qed

lemma parseLiteral_length: "parseLiteral s = Some (v, r) \<Longrightarrow> length r \<le> length s"
  by (auto simp: parseLiteral_def split: if_splits dest: parseNumber_length)

lemma skipWs_Cons_le: "skipWs s = c # cs \<Longrightarrow> Suc (length cs) \<le> length s"
  using skipWs_length [of s] by simp

lemma parse_rest_length:
  "(\<forall>s v r. parseValue f s = Some (v, r) \<longrightarrow> length r \<le> length s)
   \<and> (\<forall>s ms r. parseMembers f s = Some (ms, r) \<longrightarrow> length r \<le> length s)
   \<and> (\<forall>s vs r. parseElements f s = Some (vs, r) \<longrightarrow> length r \<le> length s)"
proof (induction f)
  case 0
  show ?case by simp
next
  case (Suc f)
  then have V: "parseValue f s = Some (v, r) \<Longrightarrow> length r \<le> length s"
    and M: "parseMembers f s = Some (ms, r) \<Longrightarrow> length r \<le> length s"
    and E: "parseElements f s = Some (vs, r) \<Longrightarrow> length r \<le> length s" for s v r ms vs
    by blast+
  have 1: "length r \<le> length s" if "parseValue (Suc f) s = Some (v, r)" for s v r
    using that
    by (auto split: list.splits if_splits option.splits prod.splits
        dest!: skipWs_Cons_le M E parseChars_length parseLiteral_length)
  have 2: "length r \<le> length s" if "parseMembers (Suc f) s = Some (ms, r)" for s ms r
    using that
    by (auto split: list.splits if_splits option.splits prod.splits
        dest!: skipWs_Cons_le V M parseChars_length)
  have 3: "length r \<le> length s" if "parseElements (Suc f) s = Some (vs, r)" for s vs r
    using that
    by (auto split: list.splits if_splits option.splits prod.splits
        dest!: skipWs_Cons_le V E)
  from 1 2 3 show ?case by blast
qed

lemma parseValue_rest: "parseValue f s = Some (v, r) \<Longrightarrow> length r \<le> length s"
  using parse_rest_length by blast

lemma parse_fuel_step:
  "(\<forall>s. 2 * length s + 1 \<le> f \<longrightarrow> parseValue (Suc f) s = parseValue f s)
   \<and> (\<forall>s. 2 * length s + 1 \<le> f \<longrightarrow> parseMembers (Suc f) s = parseMembers f s)
   \<and> (\<forall>s. 2 * length s + 2 \<le> f \<longrightarrow> parseElements (Suc f) s = parseElements f s)"
proof (induction f)
  case 0
  show ?case by simp
next
  case (Suc f)
  then have V: "2 * length s + 1 \<le> f \<Longrightarrow> parseValue (Suc f) s = parseValue f s"
    and M: "2 * length s + 1 \<le> f \<Longrightarrow> parseMembers (Suc f) s = parseMembers f s"
    and E: "2 * length s + 2 \<le> f \<Longrightarrow> parseElements (Suc f) s = parseElements f s" for s
    by blast+
  have 1: "parseValue (Suc (Suc f)) s = parseValue (Suc f) s" if b: "2 * length s + 1 \<le> Suc f" for s
  proof (cases "skipWs s")
    case Nil
    then show ?thesis by (simp only: parseValue.simps list.case)
  next
    case (Cons c cs)
    note c = Cons
    show ?thesis
    proof (cases "skipWs cs")
      case Nil
      with c show ?thesis by (simp only: parseValue.simps list.case)
    next
      case (Cons d ds)
      from skipWs_Cons_le [OF c] skipWs_length [of cs] Cons b
      have "2 * length (d # ds) + 2 \<le> f" by simp
      then have "parseMembers (Suc f) (d # ds) = parseMembers f (d # ds)"
        and "parseElements (Suc f) (d # ds) = parseElements f (d # ds)"
        using M [of "d # ds"] E [of "d # ds"] by simp_all
      with c Cons show ?thesis by (simp only: parseValue.simps list.case)
    qed
  qed
  have 2: "parseMembers (Suc (Suc f)) s = parseMembers (Suc f) s" if b: "2 * length s + 1 \<le> Suc f" for s
  proof (cases "skipWs s")
    case Nil
    then show ?thesis by (simp only: parseMembers.simps list.case)
  next
    case (Cons q cs)
    note q = Cons
    show ?thesis
    proof (cases "parseChars cs")
      case None
      with q show ?thesis by (simp only: parseMembers.simps list.case option.case)
    next
      case (Some kr)
      obtain k r1 where kr: "kr = (k, r1)" by (cases kr)
      note k = Some [unfolded kr]
      show ?thesis
      proof (cases "skipWs r1")
        case Nil
        with q k show ?thesis
          by (simp only: parseMembers.simps list.case option.case prod.case)
      next
        case (Cons col r2)
        note col = Cons
        from skipWs_Cons_le [OF q] parseChars_length [OF k] skipWs_Cons_le [OF col] b
        have l2: "2 * length r2 + 4 \<le> f" by simp
        then have v: "parseValue (Suc f) r2 = parseValue f r2"
          using V [of r2] by simp
        show ?thesis
        proof (cases "parseValue f r2")
          case None
          with q k col v show ?thesis
            by (simp only: parseMembers.simps list.case option.case prod.case)
        next
          case (Some vr)
          obtain v' r3 where vr': "vr = (v', r3)" by (cases vr)
          note vr = Some [unfolded vr']
          from parseValue_rest [OF vr] have l3: "length r3 \<le> length r2" .
          show ?thesis
          proof (cases "skipWs r3")
            case Nil
            with q k col v vr show ?thesis
              by (simp only: parseMembers.simps list.case option.case prod.case)
          next
            case (Cons x r4)
            from skipWs_Cons_le [OF Cons] l3 l2 have "2 * length r4 + 1 \<le> f" by simp
            then have "parseMembers (Suc f) r4 = parseMembers f r4"
              using M [of r4] by simp
            with q k col v vr Cons show ?thesis
              by (simp only: parseMembers.simps list.case option.case prod.case)
          qed
        qed
      qed
    qed
  qed
  have 3: "parseElements (Suc (Suc f)) s = parseElements (Suc f) s" if b: "2 * length s + 2 \<le> Suc f" for s
  proof -
    from b have v: "parseValue (Suc f) s = parseValue f s"
      using V [of s] by simp
    show ?thesis
    proof (cases "parseValue f s")
      case None
      with v show ?thesis by (simp only: parseElements.simps option.case)
    next
      case (Some vr)
      obtain v' r1 where vr': "vr = (v', r1)" by (cases vr)
      note vr = Some [unfolded vr']
      from parseValue_rest [OF vr] have l1: "length r1 \<le> length s" .
      show ?thesis
      proof (cases "skipWs r1")
        case Nil
        with v vr show ?thesis by (simp only: parseElements.simps option.case prod.case list.case)
      next
        case (Cons x r2)
        from skipWs_Cons_le [OF Cons] l1 b have "2 * length r2 + 2 \<le> f" by simp
        then have "parseElements (Suc f) r2 = parseElements f r2"
          using E [of r2] by simp
        with v vr Cons show ?thesis
          by (simp only: parseElements.simps option.case prod.case list.case)
      qed
    qed
  qed
  from 1 2 3 show ?case by blast
qed

lemma parseValue_fuel:
  "2 * length s + 1 \<le> f \<Longrightarrow> parseValue (f + k) s = parseValue f s"
proof (induction k)
  case 0
  show ?case by simp
next
  case (Suc k)
  then have "parseValue (Suc (f + k)) s = parseValue (f + k) s"
    using parse_fuel_step [of "f + k"] by simp
  with Suc show ?case by simp
qed

lemma JSON_parse_fuel:
  assumes "Suc (2 * length s) \<le> f"
  shows "JSON_parse s =
     (case parseValue f s of
        None \<Rightarrow> None
      | Some (v, rest) \<Rightarrow> if skipWs rest = [] then Some v else None)"
proof -
  from assms have "f = Suc (2 * length s) + (f - Suc (2 * length s))" by simp
  then have "parseValue f s = parseValue (Suc (2 * length s)) s"
    using parseValue_fuel [of s "Suc (2 * length s)" "f - Suc (2 * length s)"] by simp
  then show ?thesis by (simp add: JSON_parse_def)
qed

section \<open>Lemmas on the orchestrator\<close>

lemma tryModels_failed:
  "list_all (\<lambda>p. isl (chatCompletion env p (decisionTurn env um))) failed \<Longrightarrow>
   tryModels env conn um uid (failed @ rest) =
     (fst (tryModels env conn um uid rest),
      failedCalls env um failed @ snd (tryModels env conn um uid rest))"
proof (induction failed)
  case Nil
  then show ?case by (simp add: failedCalls_def)
next
  case (Cons p ps)
  from Cons.prems obtain e where e: "chatCompletion env p (decisionTurn env um) = Inl e"
    by (cases "chatCompletion env p (decisionTurn env um)") auto
  from Cons.prems have "list_all (\<lambda>p. isl (chatCompletion env p (decisionTurn env um))) ps"
    by simp
  from Cons.IH [OF this] show ?case
    by (simp add: tryModel_def e failedCalls_def)
qed

lemma generate_answered:
  assumes "answers env um failed model content"
  shows "generateAIResponse env conn um uid =
     (fst (afterDecision env conn um uid model content),
      failedCalls env um failed
        @ ChatCompletionCall model (decisionTurn env um)
        # snd (afterDecision env conn um uid model content))"
proof -
  from assms have t: "take (Suc (length failed)) models = failed @ [model]"
    and f: "list_all (\<lambda>p. isl (chatCompletion env p (decisionTurn env um))) failed"
    and c: "chatCompletion env model (decisionTurn env um) = Inr (Some content)"
    by (simp_all add: answers_def)
  have "models = take (Suc (length failed)) models @ drop (Suc (length failed)) models"
    by simp
  with t have m: "models = failed @ model # drop (Suc (length failed)) models"
    by simp
  have "generateAIResponse env conn um uid
      = tryModels env conn um uid (failed @ model # drop (Suc (length failed)) models)"
    unfolding generateAIResponse_def using m by simp
  also have "\<dots> = (fst (tryModels env conn um uid (model # drop (Suc (length failed)) models)),
      failedCalls env um failed @ snd (tryModels env conn um uid (model # drop (Suc (length failed)) models)))"
    by (rule tryModels_failed [OF f])
  finally show ?thesis
    by (simp add: tryModel_def c)
qed

lemma JSON_parse_Nil: "JSON_parse [] = None"
  by (simp add: JSON_parse_def skipWs_def)

lemma afterDecision_toolCall:
  assumes "decidesToolCall content jsonStr tool args"
  shows "afterDecision env conn um uid model content =
     (case dispatch env conn uid tool args of
        (Return text, evs) \<Rightarrow> (Some text, evs)
      | (Thrown e, evs) \<Rightarrow> (Some content, evs)
      | (ToolResult toolResult, evs) \<Rightarrow>
          (fst (summarize env model um jsonStr content toolResult),
           evs @ snd (summarize env model um jsonStr content toolResult)))"
proof -
  from assms obtain toolCall where x: "extractJson content = Some jsonStr"
    and p: "JSON_parse jsonStr = Some toolCall"
    and v: "isValidToolCall toolCall"
    and t: "getProp toolCall (js ''tool'') = Str tool"
    and a: "getProp toolCall (js ''args'') = args"
    by (auto simp: decidesToolCall_def split: option.splits)
  from p have n: "jsonStr \<noteq> []"
    using JSON_parse_Nil by auto
  show ?thesis
    by (simp add: afterDecision_def x p v t a n stringOf_def)
qed

lemma js_eq_iff: "js a = js b \<longleftrightarrow> a = b"
  by (simp add: js_def inj_map_eq_map inj_of_char)

lemma dispatch_book_ticket:
  "dispatch env conn uid (js ''book_ticket'') args =
     (toolStep (bookTicket env (getProp args (js ''tripId'')) uid
                 (getProp args (js ''pickupId'')) (getProp args (js ''dropId''))
                 (getProp args (js ''amount''))),
      [BookTicketCall (getProp args (js ''tripId'')) uid
         (getProp args (js ''pickupId'')) (getProp args (js ''dropId''))
         (getProp args (js ''amount''))])"
  by (simp add: dispatch_def js_eq_iff)

lemma not_builtin:
  assumes "tool \<notin> set builtinTools"
  shows "tool \<noteq> js ''search_trips''" "tool \<noteq> js ''get_booking_details''"
    "tool \<noteq> js ''cancel_booking''" "tool \<noteq> js ''book_ticket''"
  using assms by (auto simp: builtinTools_def)

lemma mcpDispatch_cases:
  "(\<exists>r. mcpDispatch env tool args = (ToolResult r, [ExecutingMcpTool tool]))
   \<or> (\<exists>r targs. mcpDispatch env tool args
         = (ToolResult r, [ExecutingMcpTool tool, CallToolCall tool targs]))"
  by (auto simp: mcpDispatch_def split: sum.splits)

lemma failedCalls_no_mcp: "ExecutingMcpTool tool \<notin> set (failedCalls env um failed)"
  by (auto simp: failedCalls_def)

lemma dispatch_external:
  assumes "tool \<notin> set builtinTools"
  shows "dispatch env conn uid tool args =
     (if mcpClient conn \<noteq> None \<and> tool \<in> set (map toolName (mcpToolsOrchestration conn))
      then mcpDispatch env tool args else (Return unknownActionMessage, []))"
  using not_builtin [OF assms] by (simp add: dispatch_def)

lemma dispatch_booking:
  assumes "parseBookingId env args = Inr None"
  shows "dispatch env conn uid (js ''get_booking_details'') args = (Return checkStatusMessage, [])"
    and "dispatch env conn uid (js ''cancel_booking'') args = (Return cancelMessage, [])"
  using assms by (simp_all add: dispatch_def js_eq_iff)

lemma radixValue_digits: "radixValue 10 (map (\<lambda>c. c - 48) ds) = digitsValue ds"
  by (simp add: radixValue_def digitsValue_def foldl_map)

lemma isDigit_not_space: "isDigit d \<Longrightarrow> \<not> isSpace d"
  by (auto simp: isDigit_def isSpace_def)

lemma isDigit_not_sign: "isDigit d \<Longrightarrow> d \<noteq> 43 \<and> d \<noteq> 45 \<and> d \<noteq> 120 \<and> d \<noteq> 88"
  by (auto simp: isDigit_def)

lemma takeWhile_digits:
  "list_all isDigit ds \<Longrightarrow> \<not> isDigit r \<Longrightarrow> takeWhile isDigit (ds @ r # rest) = ds"
  by (induction ds) auto

lemma parseInt_decimal_prefix:
  assumes "ds \<noteq> []" and "list_all isDigit ds" and "\<not> isDigit r"
    and "\<not> (ds = [48] \<and> (r = 120 \<or> r = 88))"
  shows "parseInt (ds @ r # rest) = Some (nearestDouble False (digitsValue ds))"
proof -
  from assms(1) obtain d ds' where ds: "ds = d # ds'" by (cases ds) auto
  with assms(2) have d: "isDigit d" by simp
  have hex: "\<not> (case ds @ r # rest of c # e # _ \<Rightarrow> c = 48 \<and> (e = 120 \<or> e = 88) | _ \<Rightarrow> False)"
  proof (cases ds')
    case Nil
    with ds assms(4) show ?thesis by auto
  next
    case (Cons e es)
    with ds assms(2) have "isDigit e" by simp
    with Cons ds show ?thesis using isDigit_not_sign [of e] by auto
  qed
  have tw: "takeWhile isDigit (ds @ r # rest) = ds"
    by (rule takeWhile_digits [OF assms(2,3)])
  have s: "dropWhile isSpace (ds @ r # rest) = ds @ r # rest"
    using ds isDigit_not_space [OF d] by simp
  have c: "(case ds @ r # rest of [] \<Rightarrow> False | c # _ \<Rightarrow> c = 45) = False"
    "(case ds @ r # rest of [] \<Rightarrow> [] | c # cs \<Rightarrow> if c = 43 \<or> c = 45 then cs else ds @ r # rest)
       = ds @ r # rest"
    using ds isDigit_not_sign [OF d] by simp_all
  show ?thesis
    unfolding parseInt_def s Let_def c using hex
    by (simp add: tw radixValue_digits assms(1))
qed

lemma toolStep_not_Return: "toolStep r \<noteq> Return m"
  by (cases r) (simp_all add: toolStep_def)

lemma dispatch_booking_message_iff:
  "(fst (dispatch env conn uid (js ''get_booking_details'') args) = Return checkStatusMessage)
     = (parseBookingId env args = Inr None)"
  "(fst (dispatch env conn uid (js ''cancel_booking'') args) = Return cancelMessage)
     = (parseBookingId env args = Inr None)"
  by (auto simp: dispatch_def js_eq_iff toolStep_not_Return split: sum.splits option.splits)

lemma dispatch_booking_number:
  assumes "parseBookingId env args = Inr (Some n)"
  shows "dispatch env conn uid (js ''get_booking_details'') args
           = (toolStep (getBookingDetails env n), [GetBookingDetailsCall n])"
    and "dispatch env conn uid (js ''cancel_booking'') args
           = (toolStep (cancelTicket env n), [CancelTicketCall n])"
  using assms by (simp_all add: dispatch_def js_eq_iff)

lemma generate_booking_nan:
  assumes "answers env um failed model content"
    and "decidesToolCall content jsonStr tool args"
    and "tool = js ''get_booking_details'' \<or> tool = js ''cancel_booking''"
    and "parseBookingId env args = Inr None"
  shows "generateAIResponse env conn um uid =
     (Some (if tool = js ''get_booking_details'' then checkStatusMessage else cancelMessage),
      failedCalls env um failed @ [ChatCompletionCall model (decisionTurn env um)])"
  using assms(3)
  by (auto simp: generate_answered [OF assms(1)] afterDecision_toolCall [OF assms(2)]
      dispatch_booking [OF assms(4)] js_eq_iff)

lemma generate_booking_number:
  assumes "answers env um failed model content"
    and "decidesToolCall content jsonStr tool args"
    and "tool = js ''get_booking_details'' \<or> tool = js ''cancel_booking''"
    and "parseBookingId env args = Inr (Some n)"
  shows "snd (generateAIResponse env conn um uid) =
       failedCalls env um failed
         @ ChatCompletionCall model (decisionTurn env um)
         # (if tool = js ''get_booking_details''
            then GetBookingDetailsCall n
              # (case getBookingDetails env n of
                   Inl e \<Rightarrow> []
                 | Inr toolResult \<Rightarrow>
                     [ChatCompletionCall model (summaryTurn env um jsonStr toolResult)])
            else CancelTicketCall n
              # (case cancelTicket env n of
                   Inl e \<Rightarrow> []
                 | Inr toolResult \<Rightarrow>
                     [ChatCompletionCall model (summaryTurn env um jsonStr toolResult)]))"
  using assms(3)
  by (auto simp: generate_answered [OF assms(1)] afterDecision_toolCall [OF assms(2)]
      dispatch_booking_number [OF assms(4)] js_eq_iff toolStep_def summarize_def
      split: sum.splits)

lemma generate_external:
  assumes "answers env um failed model content"
    and "decidesToolCall content jsonStr tool args"
    and "tool \<notin> set builtinTools"
    and "mcpClient conn \<noteq> None"
    and "tool \<in> set (map toolName (mcpToolsOrchestration conn))"
    and "normalizeArgs tool args = Inr targs"
    and "callTool env tool targs = Inr content'"
  shows "snd (generateAIResponse env conn um uid) =
     failedCalls env um failed
       @ [ChatCompletionCall model (decisionTurn env um),
          ExecutingMcpTool tool,
          CallToolCall tool targs,
          ChatCompletionCall model
            (summaryTurn env um jsonStr (truncateResult (contentText content')))]"
proof -
  from assms(4,5) have d: "dispatch env conn uid tool args = mcpDispatch env tool args"
    by (simp add: dispatch_external [OF assms(3)])
  show ?thesis
    by (simp add: generate_answered [OF assms(1)] afterDecision_toolCall [OF assms(2)] d
        mcpDispatch_def assms(6,7) summarize_def)
qed

lemma length_truncationMarker: "length truncationMarker = 44"
  by (simp add: truncationMarker_def js_def)

lemma truncateResult_long:
  assumes "length t > 4000"
  shows "truncateResult t = take 4000 t @ truncationMarker"
    and "length (truncateResult t) = 4044"
  using assms by (auto simp: truncateResult_def substring_def length_truncationMarker)

lemma generate_all_failed:
  assumes "list_all (\<lambda>p. isl (chatCompletion env p (decisionTurn env um))) models"
  shows "generateAIResponse env conn um uid = (Some apologyMessage, failedCalls env um models)"
  using tryModels_failed [OF assms, of conn uid "[]"]
  by (simp add: generateAIResponse_def)

lemma generate_plain:
  assumes "answers env um failed model content" and "extractJson content = None"
  shows "generateAIResponse env conn um uid =
     (Some content, failedCalls env um failed @ [ChatCompletionCall model (decisionTurn env um)])"
  by (simp add: generate_answered [OF assms(1)] afterDecision_def assms(2))

lemma dispatch_search_trips:
  "dispatch env conn uid (js ''search_trips'') args =
     (toolStep (searchTrips env (getProp args (js ''query''))),
      [SearchTripsCall (getProp args (js ''query''))])"
  by (simp add: dispatch_def)

section \<open>Lemmas on the extractor\<close>

lemma braceBalance_Nil: "braceBalance [] = 0"
  by (simp add: braceBalance_def)

lemma braceBalance_Cons:
  "braceBalance (c # cs) =
     (if c = 125 then 1 else 0) - (if c = 123 then 1 else 0) + braceBalance cs"
  by (simp add: braceBalance_def)

lemma substring_step:
  assumes "k \<le> e" and "e < length clean"
  shows "substring clean k (Suc e) = clean ! k # substring clean (Suc k) (Suc e)"
proof -
  from assms have "drop k clean = clean ! k # drop (Suc k) clean"
    by (simp add: Cons_nth_drop_Suc)
  moreover from assms have "Suc e - k = Suc (e - k)" by simp
  ultimately show ?thesis by (simp add: substring_def)
qed

lemma substring_empty: "substring clean n n = []"
  by (simp add: substring_def)

lemma substring_middle:
  "substring (pre @ obj @ post) (length pre) (length pre + length obj) = obj"
  by (simp add: substring_def)

lemma scanBack_SomeD:
  "scanBack clean c b n = Some r \<Longrightarrow> \<exists>i<n. r = substring clean i (Suc c) \<and> accepts r"
proof (induction n arbitrary: b)
  case 0
  then show ?case by simp
next
  case (Suc n)
  show ?case
  proof (cases "scanBack clean c b (Suc n) = Some (substring clean n (Suc c))
      \<and> accepts (substring clean n (Suc c))")
    case True
    with Suc.prems show ?thesis by auto
  next
    case False
    with Suc.prems obtain b' where "scanBack clean c b' n = Some r"
      by (auto simp: Let_def split: if_splits)
    from Suc.IH [OF this] show ?thesis by (auto intro: less_SucI)
  qed
qed

lemma scanBack_finds:
  assumes "s < n" and "n \<le> Suc e" and "e < length clean"
    and "b = braceBalance (substring clean n (Suc e))"
    and "\<forall>i. s < i \<and> i < n \<longrightarrow> \<not> accepts (substring clean i (Suc e))"
    and "braceBalance (substring clean s (Suc e)) = 0"
    and "accepts (substring clean s (Suc e))"
  shows "scanBack clean e b n = Some (substring clean s (Suc e))"
  using assms(1,2,4,5)
proof (induction n arbitrary: b)
  case 0
  then show ?case by simp
next
  case (Suc k)
  from Suc.prems(2) assms(3) have step:
    "substring clean k (Suc e) = clean ! k # substring clean (Suc k) (Suc e)"
    by (intro substring_step) auto
  let ?b2 = "braceBalance (substring clean k (Suc e))"
  have b2: "(if clean ! k = 123
             then (if clean ! k = 125 then b + 1 else b) - 1
             else (if clean ! k = 125 then b + 1 else b)) = ?b2"
    by (simp add: step braceBalance_Cons Suc.prems(3))
  show ?case
  proof (cases "k = s")
    case True
    show ?thesis
      by (simp only: scanBack.simps Let_def b2) (simp add: True assms(6,7))
  next
    case False
    with Suc.prems(1) have sk: "s < k" by simp
    with Suc.prems(4) have na: "\<not> accepts (substring clean k (Suc e))" by simp
    have "scanBack clean e ?b2 k = Some (substring clean s (Suc e))"
    proof (rule Suc.IH [OF sk])
      from Suc.prems(2) show "k \<le> Suc e" by simp
      show "?b2 = braceBalance (substring clean k (Suc e))" by simp
      from Suc.prems(4) show "\<forall>i. s < i \<and> i < k \<longrightarrow> \<not> accepts (substring clean i (Suc e))"
        by simp
    qed
    then show ?thesis
      by (simp only: scanBack.simps Let_def b2) (simp add: na)
  qed
qed

lemma scanClosings_skip:
  "\<forall>c\<in>set cs. scanBack clean c 0 (Suc c) = None \<Longrightarrow>
   scanClosings clean (cs @ rest) = scanClosings clean rest"
  by (induction cs) simp_all

lemma scanClosings_SomeD:
  "scanClosings clean cs = Some r \<Longrightarrow>
   \<exists>c\<in>set cs. \<exists>i<Suc c. r = substring clean i (Suc c) \<and> accepts r"
proof (induction cs)
  case Nil
  then show ?case by simp
next
  case (Cons c cs)
  show ?case
  proof (cases "scanBack clean c 0 (Suc c)")
    case None
    with Cons show ?thesis by auto
  next
    case (Some r')
    with Cons.prems have "r' = r" by simp
    with Some scanBack_SomeD [of clean c 0 "Suc c" r] show ?thesis by auto
  qed
qed

lemma closingIndices_set:
  "set (closingIndices clean) = {i. i < length clean \<and> clean ! i = 125}"
  by (auto simp: closingIndices_def)

lemma pieces_mem:
  "(i, j) \<in> set (concat (map (\<lambda>j. map (\<lambda>i. (i, j)) [0..<j]) [0..<Suc n])) \<longleftrightarrow> i < j \<and> j \<le> n"
  by (auto simp del: upt_Suc simp add: image_iff)

lemma acceptedPieces_mem:
  "(i, j) \<in> set (acceptedPieces s) \<longleftrightarrow> i < j \<and> j \<le> length s \<and> accepts (substring s i j)"
  unfolding acceptedPieces_def set_filter mem_Collect_eq prod.case pieces_mem by blast

lemma extractJson_SomeD:
  assumes "extractJson raw = Some r"
  shows "\<exists>i j. (i, j) \<in> set (acceptedPieces (cleanText raw)) \<and> r = substring (cleanText raw) i j"
proof -
  from assms scanClosings_SomeD obtain c i where c: "c \<in> set (closingIndices (cleanText raw))"
    and i: "i < Suc c" and r: "r = substring (cleanText raw) i (Suc c)" and a: "accepts r"
    unfolding extractJson_def by blast
  from c have "Suc c \<le> length (cleanText raw)"
    by (simp add: closingIndices_set)
  with i r a have "(i, Suc c) \<in> set (acceptedPieces (cleanText raw))"
    by (simp add: acceptedPieces_mem)
  with r show ?thesis by blast
qed

lemma closingIndices_split:
  assumes "e < length clean" and "clean ! e = 125"
  shows "closingIndices clean =
     filter (\<lambda>i. clean ! i = 125) (rev [Suc e..<length clean])
       @ e # filter (\<lambda>i. clean ! i = 125) (rev [0..<e])"
proof -
  from assms(1) have "[0..<length clean] = [0..<e] @ [e..<length clean]"
    using upt_add_eq_append [of 0 e "length clean - e"] by simp
  moreover from assms(1) have "[e..<length clean] = e # [Suc e..<length clean]"
    by (simp add: upt_conv_Cons)
  ultimately have "[0..<length clean] = [0..<e] @ e # [Suc e..<length clean]"
    by simp
  with assms(2) show ?thesis by (simp add: closingIndices_def)
qed

lemma objectPieces_mem:
  "(i, j) \<in> set (objectPieces s) \<longleftrightarrow>
     i < j \<and> j \<le> length s \<and> s ! i = 123 \<and> s ! (j - 1) = 125 \<and> accepts (substring s i j)"
  unfolding objectPieces_def set_filter mem_Collect_eq prod.case pieces_mem by auto

lemma skipWs_idem: "skipWs (skipWs s) = skipWs s"
  by (simp add: skipWs_def)

lemma parseValue_skipWs: "parseValue f (skipWs s) = parseValue f s"
  by (cases f) (simp_all add: skipWs_idem)

lemma JSON_parse_skipWs: "JSON_parse (skipWs s) = JSON_parse s"
proof -
  have "Suc (2 * length (skipWs s)) \<le> Suc (2 * length s)"
    using skipWs_length [of s] by simp
  from JSON_parse_fuel [OF this] show ?thesis
    by (simp add: parseValue_skipWs JSON_parse_def)
qed

lemma parseLiteral_not_Obj: "parseLiteral s \<noteq> Some (Obj ps, r)"
  by (auto simp: parseLiteral_def parseNumber_def Let_def split: if_splits option.splits)

lemma parseValue_Obj:
  assumes "parseValue f s = Some (Obj ps, r)"
  shows "\<exists>cs. skipWs s = 123 # cs"
proof (cases f)
  case 0
  with assms show ?thesis by simp
next
  case (Suc n)
  with assms parseLiteral_not_Obj show ?thesis
    by (auto split: list.splits if_splits option.splits)
qed

lemma toolBearing_Obj: "toolBearing v \<Longrightarrow> \<exists>ps. v = Obj ps"
  by (cases v) (simp_all add: toolBearing_def)

lemma accepts_skipWs:
  assumes "accepts s"
  shows "accepts (skipWs s)" and "\<exists>cs. skipWs s = 123 # cs"
proof -
  from assms show "accepts (skipWs s)"
    by (simp add: accepts_def JSON_parse_skipWs)
  from assms obtain v where p: "JSON_parse s = Some v" and t: "toolBearing v"
    by (auto simp: accepts_def split: option.splits)
  from toolBearing_Obj [OF t] obtain ps where "v = Obj ps" ..
  with p obtain r where "parseValue (Suc (2 * length s)) s = Some (Obj ps, r)"
    by (auto simp: JSON_parse_def split: option.splits if_splits)
  then show "\<exists>cs. skipWs s = 123 # cs"
    by (rule parseValue_Obj)
qed

lemma substring_drop:
  "drop k (substring clean i j) = substring clean (i + k) j"
  by (simp add: substring_def drop_take add.commute)

lemma candidate_object:
  assumes "i \<le> c" and "c < length clean" and "clean ! c = 125"
    and "accepts (substring clean i (Suc c))"
  shows "\<exists>k. i + k \<le> c \<and> (i + k, Suc c) \<in> set (objectPieces clean)"
proof -
  let ?piece = "substring clean i (Suc c)"
  let ?k = "length (takeWhile isJsonWs ?piece)"
  have sk: "skipWs ?piece = substring clean (i + ?k) (Suc c)"
    by (simp add: skipWs_def dropWhile_eq_drop substring_drop)
  from accepts_skipWs [OF assms(4)] obtain cs
    where acc: "accepts (substring clean (i + ?k) (Suc c))"
      and hd: "substring clean (i + ?k) (Suc c) = 123 # cs"
    unfolding sk by blast
  have k: "i + ?k \<le> c"
  proof (rule ccontr)
    assume "\<not> i + ?k \<le> c"
    then have "substring clean (i + ?k) (Suc c) = []"
      by (simp add: substring_def)
    with hd show False by simp
  qed
  from substring_step [OF k assms(2)] hd have "clean ! (i + ?k) = 123"
    by simp
  with k assms(2,3) acc have "(i + ?k, Suc c) \<in> set (objectPieces clean)"
    by (simp add: objectPieces_mem)
  with k show ?thesis by blast
qed

lemma extractJson_sole:
  assumes c: "cleanText raw = pre @ obj @ post" and s: "soleObject pre obj post"
  shows "extractJson raw = Some obj"
proof -
  let ?clean = "pre @ obj @ post"
  let ?s = "length pre"
  from s have bal: "braceBalance obj = 0"
    and only: "set (objectPieces ?clean) = {(?s, ?s + length obj)}"
    by (simp_all add: soleObject_def)
  then have "(?s, ?s + length obj) \<in> set (objectPieces ?clean)"
    by simp
  then have ne: "obj \<noteq> []" and ce': "?clean ! (?s + length obj - 1) = 125"
    and acc': "accepts (substring ?clean ?s (?s + length obj))"
    by (auto simp: objectPieces_mem)
  from acc' have acc: "accepts obj"
    by (simp only: substring_middle)
  from ne obtain e where e: "Suc e = ?s + length obj"
    by (cases obj) auto
  then have el: "e < length ?clean" by simp
  from ce' e have ce: "?clean ! e = 125"
    by (metis diff_Suc_1)
  have sub: "substring ?clean ?s (Suc e) = obj"
    unfolding e by (rule substring_middle)
  have cand: "c = e \<and> i \<le> ?s"
    if "i \<le> c" and "c < length ?clean" and "?clean ! c = 125"
      and "accepts (substring ?clean i (Suc c))" for i c
  proof -
    from candidate_object [OF that] obtain k where "i + k \<le> c"
      and "(i + k, Suc c) \<in> set (objectPieces ?clean)" by blast
    with only have "i + k = ?s" and "Suc c = ?s + length obj" by simp_all
    with e show ?thesis by simp
  qed
  have skip: "\<forall>c\<in>set (filter (\<lambda>i. ?clean ! i = 125) (rev [Suc e..<length ?clean])).
      scanBack ?clean c 0 (Suc c) = None"
  proof
    fix c assume "c \<in> set (filter (\<lambda>i. ?clean ! i = 125) (rev [Suc e..<length ?clean]))"
    then have ec: "e < c" and cl: "c < length ?clean" and cc: "?clean ! c = 125" by auto
    show "scanBack ?clean c 0 (Suc c) = None"
    proof (cases "scanBack ?clean c 0 (Suc c)")
      case None
      then show ?thesis .
    next
      case (Some r)
      from scanBack_SomeD [OF Some] obtain i where "i < Suc c"
        and "accepts (substring ?clean i (Suc c))" by blast
      then have "c = e"
        using cand [of i c] cl cc by simp
      with ec show ?thesis by simp
    qed
  qed
  have inner: "\<forall>i. ?s < i \<and> i < Suc e \<longrightarrow> \<not> accepts (substring ?clean i (Suc e))"
  proof (intro allI impI notI)
    fix i assume i: "?s < i \<and> i < Suc e" and "accepts (substring ?clean i (Suc e))"
    then have "i \<le> ?s"
      using cand [of i e] el ce by simp
    with i show False by simp
  qed
  have found: "scanBack ?clean e 0 (Suc e) = Some (substring ?clean ?s (Suc e))"
  proof (rule scanBack_finds)
    from e ne show "?s < Suc e" by (cases obj) auto
    show "Suc e \<le> Suc e" by simp
    show "e < length ?clean" by (rule el)
    show "0 = braceBalance (substring ?clean (Suc e) (Suc e))"
      by (simp add: substring_empty braceBalance_Nil)
    show "\<forall>i. ?s < i \<and> i < Suc e \<longrightarrow> \<not> accepts (substring ?clean i (Suc e))"
      by (rule inner)
    show "braceBalance (substring ?clean ?s (Suc e)) = 0" by (simp add: sub bal)
    show "accepts (substring ?clean ?s (Suc e))" by (simp add: sub acc)
  qed
  have "extractJson raw = scanClosings ?clean (closingIndices ?clean)"
    by (simp add: extractJson_def c)
  also have "\<dots> = scanClosings ?clean
      (filter (\<lambda>i. ?clean ! i = 125) (rev [Suc e..<length ?clean])
        @ e # filter (\<lambda>i. ?clean ! i = 125) (rev [0..<e]))"
    by (simp only: closingIndices_split [OF el ce])
  also have "\<dots> = scanClosings ?clean (e # filter (\<lambda>i. ?clean ! i = 125) (rev [0..<e]))"
    by (rule scanClosings_skip [OF skip])
  also have "\<dots> = Some obj"
    by (simp only: scanClosings.simps found sub option.case)
  finally show ?thesis .
qed

lemma extractJson_none:
  assumes "acceptedPieces (cleanText raw) = []"
  shows "extractJson raw = None"
proof (cases "extractJson raw")
  case None
  then show ?thesis .
next
  case (Some r)
  from extractJson_SomeD [OF Some] assms show ?thesis by simp
qed

section \<open>The claims\<close>

subsection \<open>C1\<close>

text \<open>
  C1, as stated, fails. The raw output \<open>{"tool":"a```b"}\<close> is one balanced tool-bearing
  object and holds no other, but the fence marker inside its string is stripped with the
  others before the scan: the text returned is \<open>{"tool":"ab"}\<close>, whose \<open>tool\<close> is another
  string.
\<close>

theorem fence_in_string_counterexample:
  "acceptedPieces (js ''{\"tool\":\"a```b\"}'') = [(0, 16)]
   \<and> braceBalance (js ''{\"tool\":\"a```b\"}'') = 0
   \<and> soleObject [] (js ''{\"tool\":\"a```b\"}'') []
   \<and> JSON_parse (js ''{\"tool\":\"a```b\"}'') = Some (Obj [(js ''tool'', Str (js ''a```b''))])
   \<and> extractJson (js ''{\"tool\":\"a```b\"}'') = Some (js ''{\"tool\":\"ab\"}'')
   \<and> JSON_parse (js ''{\"tool\":\"ab\"}'') = Some (Obj [(js ''tool'', Str (js ''ab''))])"
  by code_simp

text \<open>
  C1, amended. When the cleaned text (fence markers and control characters stripped, the
  ends trimmed) holds exactly one tool-bearing object, that is exactly one piece that
  starts with an opening brace, ends with a closing brace and parses to a value with a
  non-empty \<open>tool\<close> field, and that object is balanced as the scan counts (as many
  closing as opening braces, those inside its string literals included), then
  \<open>extractJson\<close> returns the text of that object as it stands in the cleaned text,
  whatever text stands in front of it and behind it.
\<close>

theorem extract_sole_object:
  assumes "cleanText raw = pre @ obj @ post" and "soleObject pre obj post"
  shows "extractJson raw = Some obj"
  by (rule extractJson_sole [OF assms])

theorem extract_sole_object_witness:
  "cleanText (js ''Sure. ```json'' @ 10 # js ''{\"tool\":\"x\"} '' @ 10 # js ''```thanks {ok}'')
     = js ''Sure. '' @ js ''{\"tool\":\"x\"}'' @ js '' thanks {ok}''
   \<and> soleObject (js ''Sure. '') (js ''{\"tool\":\"x\"}'') (js '' thanks {ok}'')
   \<and> extractJson (js ''Sure. ```json'' @ 10 # js ''{\"tool\":\"x\"} '' @ 10 # js ''```thanks {ok}'')
     = Some (js ''{\"tool\":\"x\"}'')"
proof -
  have c: "cleanText (js ''Sure. ```json'' @ 10 # js ''{\"tool\":\"x\"} '' @ 10 # js ''```thanks {ok}'')
     = js ''Sure. '' @ js ''{\"tool\":\"x\"}'' @ js '' thanks {ok}''"
    by code_simp
  have s: "soleObject (js ''Sure. '') (js ''{\"tool\":\"x\"}'') (js '' thanks {ok}'')"
    by code_simp
  from extract_sole_object [OF c s] c s show ?thesis by blast
qed

subsection \<open>C2\<close>

text \<open>
  C2, as stated, fails. No piece of the raw output \<open>{"to```ol":"x","args":{}}\<close> is an
  object with a \<open>tool\<close> field (its field is named \<open>to```ol\<close>), but stripping the fence
  marker makes one: the extractor returns a tool call, and the reply is the fixed message
  for an unknown tool, not the raw text.
\<close>

theorem fence_in_key_counterexample:
  "acceptedPieces (js ''{\"to```ol\":\"x\",\"args\":{}}'') = []
   \<and> extractJson (js ''{\"to```ol\":\"x\",\"args\":{}}'') = Some (js ''{\"tool\":\"x\",\"args\":{}}'')
   \<and> fst (generateAIResponse
          (scripted (replying (js ''{\"to```ol\":\"x\",\"args\":{}}'') (Some (js ''Done''))) [])
          initialConnector (js ''hello'') 7)
     = Some (js ''I couldn't understand which action to perform. Could you rephrase?'')"
proof -
  let ?raw = "js ''{\"to```ol\":\"x\",\"args\":{}}''"
  let ?env = "scripted (replying ?raw (Some (js ''Done''))) []"
  have p: "acceptedPieces ?raw = []"
    by code_simp
  have x: "extractJson ?raw = Some (js ''{\"tool\":\"x\",\"args\":{}}'')"
    by code_simp
  have a: "answers ?env (js ''hello'') [] (js ''mistralai/Mixtral-8x7B-Instruct-v0.1'') ?raw"
    by code_simp
  have d: "decidesToolCall ?raw (js ''{\"tool\":\"x\",\"args\":{}}'') (js ''x'') (Obj [])"
    by code_simp
  have b: "js ''x'' \<notin> set builtinTools"
    by code_simp
  have "dispatch ?env initialConnector 7 (js ''x'') (Obj []) = (Return unknownActionMessage, [])"
    by (simp add: dispatch_external [OF b] initialConnector_def)
  then have "fst (generateAIResponse ?env initialConnector (js ''hello'') 7)
      = Some unknownActionMessage"
    by (simp add: generate_answered [OF a] afterDecision_toolCall [OF d])
  with p x show ?thesis by (simp add: unknownActionMessage_def)
qed

text \<open>
  C2, amended. When no piece of the cleaned text is an object with a \<open>tool\<close> field,
  \<open>extractJson\<close> returns none, and the reply of the orchestrator is the raw text of the
  endpoint that answered, verbatim.
\<close>

theorem no_object_plain_reply:
  assumes "acceptedPieces (cleanText raw) = []"
  shows "extractJson raw = None
     \<and> (answers env um failed model raw \<longrightarrow>
          generateAIResponse env conn um uid =
            (Some raw, failedCalls env um failed @ [ChatCompletionCall model (decisionTurn env um)]))"
  using extractJson_none [OF assms] generate_plain by blast

theorem no_object_plain_reply_witness:
  "acceptedPieces (cleanText (js ''Hi! Try {\"from\":\"A\"} '')) = []
   \<and> extractJson (js ''Hi! Try {\"from\":\"A\"} '') = None
   \<and> answers (scripted (replying (js ''Hi! Try {\"from\":\"A\"} '') (Some (js ''Done''))) [])
       (js ''hello'') [] (js ''mistralai/Mixtral-8x7B-Instruct-v0.1'') (js ''Hi! Try {\"from\":\"A\"} '')
   \<and> fst (generateAIResponse
          (scripted (replying (js ''Hi! Try {\"from\":\"A\"} '') (Some (js ''Done''))) [])
          initialConnector (js ''hello'') 7)
     = Some (js ''Hi! Try {\"from\":\"A\"} '')"
proof -
  let ?raw = "js ''Hi! Try {\"from\":\"A\"} ''"
  let ?env = "scripted (replying ?raw (Some (js ''Done''))) []"
  have p: "acceptedPieces (cleanText ?raw) = []"
    by code_simp
  have a: "answers ?env (js ''hello'') [] (js ''mistralai/Mixtral-8x7B-Instruct-v0.1'') ?raw"
    by code_simp
  from no_object_plain_reply [OF p, of ?env "js ''hello''" "[]"
      "js ''mistralai/Mixtral-8x7B-Instruct-v0.1''" initialConnector 7] a
  have "extractJson ?raw = None"
    and "fst (generateAIResponse ?env initialConnector (js ''hello'') 7) = Some ?raw"
    by simp_all
  with p a show ?thesis by blast
qed

subsection \<open>C3\<close>

text \<open>
  C3 does not hold of the code. The endpoint answers the decision turn with a call to
  \<open>search_trips\<close>. Where the summary completion carries no content, the function returns
  \<open>undefined\<close>, no text; where the tool throws, the inner \<open>catch\<close> returns the raw tool
  call of the model, no apology.
\<close>

theorem summary_without_content:
  "fst (generateAIResponse
         (scripted (replying (js ''{\"tool\":\"search_trips\",\"args\":{\"query\":\"Coimbatore\"}}'') None) [])
         initialConnector (js ''buses to Coimbatore'') 7) = None
   \<and> fst (generateAIResponse
         ((scripted (replying (js ''{\"tool\":\"search_trips\",\"args\":{\"query\":\"Coimbatore\"}}'') (Some (js ''Done''))) [])
            \<lparr>searchTrips := (\<lambda>query. Inl (Error (js ''connect ECONNREFUSED'')))\<rparr>)
         initialConnector (js ''buses to Coimbatore'') 7)
       = Some (js ''{\"tool\":\"search_trips\",\"args\":{\"query\":\"Coimbatore\"}}'')"
proof -
  let ?text = "js ''{\"tool\":\"search_trips\",\"args\":{\"query\":\"Coimbatore\"}}''"
  let ?env = "scripted (replying ?text None) []"
  let ?env' = "(scripted (replying ?text (Some (js ''Done''))) [])
            \<lparr>searchTrips := (\<lambda>query. Inl (Error (js ''connect ECONNREFUSED'')))\<rparr>"
  let ?m = "js ''mistralai/Mixtral-8x7B-Instruct-v0.1''"
  have a: "answers ?env (js ''buses to Coimbatore'') [] ?m ?text"
    by code_simp
  have a': "answers ?env' (js ''buses to Coimbatore'') [] ?m ?text"
    by code_simp
  have d: "decidesToolCall ?text ?text (js ''search_trips'') (Obj [(js ''query'', Str (js ''Coimbatore''))])"
    by code_simp
  have 1: "fst (generateAIResponse ?env initialConnector (js ''buses to Coimbatore'') 7) = None"
    by (simp only: generate_answered [OF a] afterDecision_toolCall [OF d] dispatch_search_trips
          fst_conv)
       (simp add: toolStep_def summarize_def summaryTurn_def scripted_def replying_def)
  have 2: "fst (generateAIResponse ?env' initialConnector (js ''buses to Coimbatore'') 7) = Some ?text"
    by (simp only: generate_answered [OF a'] afterDecision_toolCall [OF d] dispatch_search_trips
          fst_conv)
       (simp add: toolStep_def scripted_def)
  from 1 2 show ?thesis by blast
qed

subsection \<open>C4\<close>

text \<open>
  C4. When the decision call of every endpoint of the priority list throws, the reply is
  the fixed apology, after one call per endpoint. When the endpoints in front of one
  throw and that one answers with a text in which the extractor finds no tool call, the
  reply is that text, and nothing of the failures is in it.
\<close>

theorem endpoint_fallback:
  "(list_all (\<lambda>p. isl (chatCompletion env p (decisionTurn env um))) models \<longrightarrow>
      generateAIResponse env conn um uid = (Some apologyMessage, failedCalls env um models))
   \<and> (answers env um failed model content \<and> extractJson content = None \<longrightarrow>
        generateAIResponse env conn um uid =
          (Some content,
           failedCalls env um failed @ [ChatCompletionCall model (decisionTurn env um)]))"
  using generate_all_failed generate_plain by blast

theorem endpoint_fallback_witness:
  "list_all (\<lambda>p. isl (chatCompletion (scripted allDown []) p
        (decisionTurn (scripted allDown []) (js ''hello'')))) models
   \<and> fst (generateAIResponse (scripted allDown []) initialConnector (js ''hello'') 7)
       = Some (js ''I'm having trouble processing your request right now. Please try again in a moment.'')
   \<and> answers (scripted (firstDown (js ''Hello! How can I help?'')) []) (js ''hello'')
       [js ''mistralai/Mixtral-8x7B-Instruct-v0.1''] (js ''NousResearch/Hermes-2-Pro-Mistral-7B'')
       (js ''Hello! How can I help?'')
   \<and> extractJson (js ''Hello! How can I help?'') = None
   \<and> fst (generateAIResponse (scripted (firstDown (js ''Hello! How can I help?'')) [])
        initialConnector (js ''hello'') 7)
       = Some (js ''Hello! How can I help?'')"
proof -
  have f: "list_all (\<lambda>p. isl (chatCompletion (scripted allDown []) p
        (decisionTurn (scripted allDown []) (js ''hello'')))) models"
    by (simp add: scripted_def allDown_def models_def)
  have a: "answers (scripted (firstDown (js ''Hello! How can I help?'')) []) (js ''hello'')
       [js ''mistralai/Mixtral-8x7B-Instruct-v0.1''] (js ''NousResearch/Hermes-2-Pro-Mistral-7B'')
       (js ''Hello! How can I help?'')"
    by code_simp
  have x: "extractJson (js ''Hello! How can I help?'') = None"
    by code_simp
  from endpoint_fallback [where env = "scripted allDown []" and um = "js ''hello''"
      and conn = initialConnector and uid = 7] f
  have 1: "fst (generateAIResponse (scripted allDown []) initialConnector (js ''hello'') 7)
       = Some (js ''I'm having trouble processing your request right now. Please try again in a moment.'')"
    by (simp add: apologyMessage_def)
  from endpoint_fallback [where env = "scripted (firstDown (js ''Hello! How can I help?'')) []"
      and um = "js ''hello''" and failed = "[js ''mistralai/Mixtral-8x7B-Instruct-v0.1'']"
      and model = "js ''NousResearch/Hermes-2-Pro-Mistral-7B''"
      and content = "js ''Hello! How can I help?''" and conn = initialConnector and uid = 7] a x
  have 2: "fst (generateAIResponse (scripted (firstDown (js ''Hello! How can I help?'')) [])
        initialConnector (js ''hello'') 7) = Some (js ''Hello! How can I help?'')"
    by simp
  from f 1 a x 2 show ?thesis by blast
qed

subsection \<open>C5\<close>

text \<open>
  C5, as stated, fails: the initializer keeps no mark of an attempt. Entered again after
  a handshake that timed out, it finds \<open>mcpClient\<close> unset and dials a second time.
\<close>

theorem reentry_after_timeout_counterexample:
  "dials (connectToMcpServer TimedOut (Inl (Error (js ''MCP Connection Timed Out'')))
            (connectToMcpServer TimedOut (Inl (Error (js ''MCP Connection Timed Out'')))
               initialConnector)) = 2"
  by (simp add: connectToMcpServer_def initialConnector_def)

text \<open>
  C5, amended. Entered with the client set, the initializer returns the state as it is
  and dials nothing. A handshake that fails or times out leaves the client unset and the
  list of external tools as it was, and nothing but the dial is recorded, so another
  entry would dial again. The one entry the module makes, at load, dials once; when its
  handshake fails, the registry holds the built-in tools only: every other tool name
  gets the fixed message.
\<close>

theorem connector_reentry:
  "(mcpClient c \<noteq> None \<longrightarrow> connectToMcpServer h listed c = c)
   \<and> (mcpClient c = None \<and> h \<noteq> Established \<longrightarrow>
        connectToMcpServer h listed c = c\<lparr>dials := Suc (dials c)\<rparr>)
   \<and> dials (connectToMcpServer h listed initialConnector) = 1
   \<and> (h \<noteq> Established \<and> tool \<notin> set builtinTools \<longrightarrow>
        dispatch env (connectToMcpServer h listed initialConnector) uid tool args
          = (Return unknownActionMessage, []))"
proof -
  have 1: "mcpClient c \<noteq> None \<longrightarrow> connectToMcpServer h listed c = c"
    by (simp add: connectToMcpServer_def)
  have 2: "mcpClient c = None \<and> h \<noteq> Established \<longrightarrow>
        connectToMcpServer h listed c = c\<lparr>dials := Suc (dials c)\<rparr>"
    by (cases h) (simp_all add: connectToMcpServer_def)
  have 3: "dials (connectToMcpServer h listed initialConnector) = 1"
    by (cases h; cases listed) (simp_all add: connectToMcpServer_def initialConnector_def)
  have 4: "h \<noteq> Established \<and> tool \<notin> set builtinTools \<longrightarrow>
        dispatch env (connectToMcpServer h listed initialConnector) uid tool args
          = (Return unknownActionMessage, [])"
  proof (intro impI, elim conjE)
    assume h: "h \<noteq> Established" and t: "tool \<notin> set builtinTools"
    from h have "mcpClient (connectToMcpServer h listed initialConnector) = None"
      by (cases h) (simp_all add: connectToMcpServer_def initialConnector_def)
    then show "dispatch env (connectToMcpServer h listed initialConnector) uid tool args
          = (Return unknownActionMessage, [])"
      by (simp add: dispatch_external [OF t])
  qed
  from 1 2 3 4 show ?thesis by blast
qed

theorem connector_reentry_witness:
  "mcpClient (connectToMcpServer Established (Inr [\<lparr>toolName = js ''list-events'',
        toolDescription = js ''List events from calendar''\<rparr>]) initialConnector) \<noteq> None
   \<and> connectToMcpServer Established (Inr [])
        (connectToMcpServer Established (Inr [\<lparr>toolName = js ''list-events'',
           toolDescription = js ''List events from calendar''\<rparr>]) initialConnector)
       = connectToMcpServer Established (Inr [\<lparr>toolName = js ''list-events'',
           toolDescription = js ''List events from calendar''\<rparr>]) initialConnector
   \<and> mcpClient initialConnector = None \<and> TimedOut \<noteq> Established
   \<and> connectToMcpServer TimedOut (Inr []) initialConnector
       = initialConnector\<lparr>dials := Suc (dials initialConnector)\<rparr>
   \<and> js ''list-events'' \<notin> set builtinTools
   \<and> dispatch (scripted allDown []) (connectToMcpServer TimedOut (Inr []) initialConnector) 7
        (js ''list-events'') (Obj [])
       = (Return unknownActionMessage, [])"
proof -
  let ?c = "connectToMcpServer Established (Inr [\<lparr>toolName = js ''list-events'',
        toolDescription = js ''List events from calendar''\<rparr>]) initialConnector"
  have a: "mcpClient ?c \<noteq> None"
    by (simp add: connectToMcpServer_def initialConnector_def)
  have b: "mcpClient initialConnector = None" and h: "TimedOut \<noteq> Established"
    by (simp_all add: initialConnector_def)
  have t: "js ''list-events'' \<notin> set builtinTools"
    by code_simp
  from connector_reentry [of ?c Established "Inr []"] a
  have 1: "connectToMcpServer Established (Inr []) ?c = ?c"
    by blast
  from connector_reentry [of initialConnector TimedOut "Inr []"] b h
  have 2: "connectToMcpServer TimedOut (Inr []) initialConnector
       = initialConnector\<lparr>dials := Suc (dials initialConnector)\<rparr>"
    by blast
  from connector_reentry [of initialConnector TimedOut "Inr []" "js ''list-events''"
      "scripted allDown []" 7 "Obj []"] h t
  have 3: "dispatch (scripted allDown []) (connectToMcpServer TimedOut (Inr []) initialConnector) 7
        (js ''list-events'') (Obj []) = (Return unknownActionMessage, [])"
    by blast
  from a 1 b h 2 t 3 show ?thesis by blast
qed

subsection \<open>C6\<close>

text \<open>
  C6, as stated, fails: an external result of 4001 characters is cut to its first 4000
  and the marker of 44 characters is appended, so the text of the summary turn has 4044
  characters, more than the result had.
\<close>

theorem truncation_exceeds_counterexample:
  "ChatCompletionCall (js ''mistralai/Mixtral-8x7B-Instruct-v0.1'')
     (summaryTurn
        (scripted (replying (js ''{\"tool\":\"list-events\",\"args\":{}}'') (Some (js ''Done'')))
           [TextPart (replicate 4001 97)])
        (js ''what is on today'') (js ''{\"tool\":\"list-events\",\"args\":{}}'')
        (replicate 4000 97 @ truncationMarker))
     \<in> set (snd (generateAIResponse
          (scripted (replying (js ''{\"tool\":\"list-events\",\"args\":{}}'') (Some (js ''Done'')))
             [TextPart (replicate 4001 97)])
          (connectToMcpServer Established (Inl (Error (js ''Method not found''))) initialConnector)
          (js ''what is on today'') 7))
   \<and> length (contentText [TextPart (replicate 4001 97)]) = 4001
   \<and> length (replicate 4000 97 @ truncationMarker) = 4044"
proof -
  let ?text = "js ''{\"tool\":\"list-events\",\"args\":{}}''"
  let ?env = "scripted (replying ?text (Some (js ''Done''))) [TextPart (replicate 4001 97)]"
  let ?conn = "connectToMcpServer Established (Inl (Error (js ''Method not found''))) initialConnector"
  let ?m = "js ''mistralai/Mixtral-8x7B-Instruct-v0.1''"
  let ?targs = "Obj [(js ''account'', Str (js ''normal'')), (js ''calendarId'', Str (js ''primary'')),
                     (js ''maxResults'', Num (NumLit False [53] [] 0))]"
  have a: "answers ?env (js ''what is on today'') [] ?m ?text"
    by (simp add: answers_def scripted_def replying_def decisionTurn_def models_def)
  have d: "decidesToolCall ?text ?text (js ''list-events'') (Obj [])"
    by code_simp
  have b: "js ''list-events'' \<notin> set builtinTools"
    by code_simp
  have r: "js ''list-events'' \<in> set (map toolName (mcpToolsOrchestration ?conn))"
    by code_simp
  have c: "mcpClient ?conn \<noteq> None"
    by code_simp
  have n: "normalizeArgs (js ''list-events'') (Obj []) = Inr ?targs"
    by code_simp
  have t: "callTool ?env (js ''list-events'') ?targs = Inr [TextPart (replicate 4001 97)]"
    by (simp add: scripted_def)
  have l: "contentText [TextPart (replicate 4001 97)] = replicate 4001 97"
    by (simp add: contentText_def)
  have u: "truncateResult (replicate 4001 97) = replicate 4000 97 @ truncationMarker"
    by (simp add: truncateResult_long(1))
  from generate_external [OF a d b c r n t, of 7] show ?thesis
    by (simp add: l u length_truncationMarker)
qed

text \<open>
  C6, amended. An external tool result longer than 4000 characters reaches the summary
  turn as its first 4000 characters followed by the truncation marker: 4044 characters,
  which is no more than the result had exactly when the result had at least 4044.
\<close>

theorem external_result_truncated:
  assumes "answers env um failed model content"
    and "decidesToolCall content jsonStr tool args"
    and "tool \<notin> set builtinTools"
    and "mcpClient conn \<noteq> None"
    and "tool \<in> set (map toolName (mcpToolsOrchestration conn))"
    and "normalizeArgs tool args = Inr targs"
    and "callTool env tool targs = Inr result"
    and "length (contentText result) > 4000"
  shows "last (snd (generateAIResponse env conn um uid)) =
       ChatCompletionCall model
         (summaryTurn env um jsonStr (take 4000 (contentText result) @ truncationMarker))
     \<and> length (take 4000 (contentText result) @ truncationMarker) = 4044
     \<and> (length (take 4000 (contentText result) @ truncationMarker) \<le> length (contentText result))
         = (4044 \<le> length (contentText result))"
  using assms(8)
  by (simp add: generate_external [OF assms(1-7)] truncateResult_long(1)
      length_truncationMarker)

theorem external_result_truncated_witness:
  "answers (scripted (replying (js ''{\"tool\":\"list-events\",\"args\":{}}'') (Some (js ''Done'')))
           [TextPart (replicate 5000 97)])
       (js ''what is on today'') [] (js ''mistralai/Mixtral-8x7B-Instruct-v0.1'')
       (js ''{\"tool\":\"list-events\",\"args\":{}}'')
   \<and> decidesToolCall (js ''{\"tool\":\"list-events\",\"args\":{}}'')
       (js ''{\"tool\":\"list-events\",\"args\":{}}'') (js ''list-events'') (Obj [])
   \<and> js ''list-events'' \<notin> set builtinTools
   \<and> length (contentText [TextPart (replicate 5000 97)]) > 4000
   \<and> last (snd (generateAIResponse
          (scripted (replying (js ''{\"tool\":\"list-events\",\"args\":{}}'') (Some (js ''Done'')))
             [TextPart (replicate 5000 97)])
          (connectToMcpServer Established (Inl (Error (js ''Method not found''))) initialConnector)
          (js ''what is on today'') 7))
     = ChatCompletionCall (js ''mistralai/Mixtral-8x7B-Instruct-v0.1'')
         (summaryTurn
            (scripted (replying (js ''{\"tool\":\"list-events\",\"args\":{}}'') (Some (js ''Done'')))
               [TextPart (replicate 5000 97)])
            (js ''what is on today'') (js ''{\"tool\":\"list-events\",\"args\":{}}'')
            (replicate 4000 97 @ truncationMarker))"
proof -
  let ?text = "js ''{\"tool\":\"list-events\",\"args\":{}}''"
  let ?env = "scripted (replying ?text (Some (js ''Done''))) [TextPart (replicate 5000 97)]"
  let ?conn = "connectToMcpServer Established (Inl (Error (js ''Method not found''))) initialConnector"
  let ?m = "js ''mistralai/Mixtral-8x7B-Instruct-v0.1''"
  let ?targs = "Obj [(js ''account'', Str (js ''normal'')), (js ''calendarId'', Str (js ''primary'')),
                     (js ''maxResults'', Num (NumLit False [53] [] 0))]"
  have a: "answers ?env (js ''what is on today'') [] ?m ?text"
    by (simp add: answers_def scripted_def replying_def decisionTurn_def models_def)
  have d: "decidesToolCall ?text ?text (js ''list-events'') (Obj [])"
    by code_simp
  have b: "js ''list-events'' \<notin> set builtinTools"
    by code_simp
  have r: "js ''list-events'' \<in> set (map toolName (mcpToolsOrchestration ?conn))"
    by code_simp
  have c: "mcpClient ?conn \<noteq> None"
    by code_simp
  have n: "normalizeArgs (js ''list-events'') (Obj []) = Inr ?targs"
    by code_simp
  have t: "callTool ?env (js ''list-events'') ?targs = Inr [TextPart (replicate 5000 97)]"
    by (simp add: scripted_def)
  have l: "contentText [TextPart (replicate 5000 97)] = replicate 5000 97"
    by (simp add: contentText_def)
  then have g: "length (contentText [TextPart (replicate 5000 97)]) > 4000"
    by simp
  from external_result_truncated [OF a d b c r n t g, of 7]
  have "last (snd (generateAIResponse ?env ?conn (js ''what is on today'') 7))
     = ChatCompletionCall ?m
         (summaryTurn ?env (js ''what is on today'') ?text (replicate 4000 97 @ truncationMarker))"
    by (simp add: l)
  with a d b g show ?thesis by blast
qed

subsection \<open>C7\<close>

text \<open>
  C7. For a tool call that passes \<open>isValidToolCall\<close> and names no built-in tool, the
  branch of the external tools is entered (its log line is written) exactly when the
  client is set and the name is the name of a discovered tool; so for the name of a
  discovered tool, exactly when the client is set. In every other case the reply is the
  fixed message about not understanding the action, after the decision call alone.
  Once the branch is entered and the fix-ups of the arguments go through, the tool of
  the provider is called with the fixed-up arguments.
\<close>

theorem external_dispatch_iff_connected:
  assumes "answers env um failed model content"
    and "decidesToolCall content jsonStr tool args"
    and "tool \<notin> set builtinTools"
  shows "(ExecutingMcpTool tool \<in> set (snd (generateAIResponse env conn um uid)))
           = (mcpClient conn \<noteq> None \<and> tool \<in> set (map toolName (mcpToolsOrchestration conn)))
     \<and> (tool \<in> set (map toolName (mcpToolsOrchestration conn)) \<longrightarrow>
          (ExecutingMcpTool tool \<in> set (snd (generateAIResponse env conn um uid)))
            = (mcpClient conn \<noteq> None))
     \<and> (ExecutingMcpTool tool \<notin> set (snd (generateAIResponse env conn um uid)) \<longrightarrow>
          generateAIResponse env conn um uid =
            (Some unknownActionMessage,
             failedCalls env um failed @ [ChatCompletionCall model (decisionTurn env um)]))
     \<and> (ExecutingMcpTool tool \<in> set (snd (generateAIResponse env conn um uid))
          \<and> normalizeArgs tool args = Inr targs \<longrightarrow>
          CallToolCall tool targs \<in> set (snd (generateAIResponse env conn um uid)))"
proof (cases "mcpClient conn \<noteq> None \<and> tool \<in> set (map toolName (mcpToolsOrchestration conn))")
  case True
  then have d: "dispatch env conn uid tool args = mcpDispatch env tool args"
    by (simp add: dispatch_external [OF assms(3)])
  from mcpDispatch_cases [of env tool args]
  have e: "ExecutingMcpTool tool \<in> set (snd (generateAIResponse env conn um uid))"
    by (auto simp: generate_answered [OF assms(1)] afterDecision_toolCall [OF assms(2)] d)
  have "CallToolCall tool targs \<in> set (snd (generateAIResponse env conn um uid))"
    if "normalizeArgs tool args = Inr targs"
    using that
    by (auto simp: generate_answered [OF assms(1)] afterDecision_toolCall [OF assms(2)] d
        mcpDispatch_def split: sum.splits)
  with True e show ?thesis by simp
next
  case False
  then have d: "dispatch env conn uid tool args = (Return unknownActionMessage, [])"
    by (auto simp: dispatch_external [OF assms(3)])
  have g: "generateAIResponse env conn um uid =
            (Some unknownActionMessage,
             failedCalls env um failed @ [ChatCompletionCall model (decisionTurn env um)])"
    by (simp add: generate_answered [OF assms(1)] afterDecision_toolCall [OF assms(2)] d)
  have "ExecutingMcpTool tool \<notin> set (snd (generateAIResponse env conn um uid))"
    by (simp add: g failedCalls_no_mcp)
  with False g show ?thesis by auto
qed

theorem external_dispatch_iff_connected_witness:
  "answers (scripted (replying (js ''{\"tool\":\"list-events\",\"args\":{}}'') (Some (js ''Done''))) [TextPart (js ''No events'')])
       (js ''what is on today'') [] (js ''mistralai/Mixtral-8x7B-Instruct-v0.1'')
       (js ''{\"tool\":\"list-events\",\"args\":{}}'')
   \<and> decidesToolCall (js ''{\"tool\":\"list-events\",\"args\":{}}'')
       (js ''{\"tool\":\"list-events\",\"args\":{}}'') (js ''list-events'') (Obj [])
   \<and> js ''list-events'' \<notin> set builtinTools
   \<and> js ''list-events''
       \<in> set (map toolName (mcpToolsOrchestration
            (connectToMcpServer Established (Inl (Error (js ''Method not found''))) initialConnector)))
   \<and> mcpClient (connectToMcpServer Established (Inl (Error (js ''Method not found''))) initialConnector)
       \<noteq> None
   \<and> ExecutingMcpTool (js ''list-events'')
       \<in> set (snd (generateAIResponse
            (scripted (replying (js ''{\"tool\":\"list-events\",\"args\":{}}'') (Some (js ''Done''))) [TextPart (js ''No events'')])
            (connectToMcpServer Established (Inl (Error (js ''Method not found''))) initialConnector)
            (js ''what is on today'') 7))
   \<and> ExecutingMcpTool (js ''list-events'')
       \<notin> set (snd (generateAIResponse
            (scripted (replying (js ''{\"tool\":\"list-events\",\"args\":{}}'') (Some (js ''Done''))) [TextPart (js ''No events'')])
            initialConnector (js ''what is on today'') 7))
   \<and> fst (generateAIResponse
            (scripted (replying (js ''{\"tool\":\"list-events\",\"args\":{}}'') (Some (js ''Done''))) [TextPart (js ''No events'')])
            initialConnector (js ''what is on today'') 7) = Some unknownActionMessage
   \<and> normalizeArgs (js ''list-events'') (Obj [])
       = Inr (Obj [(js ''account'', Str (js ''normal'')), (js ''calendarId'', Str (js ''primary'')),
                   (js ''maxResults'', Num (NumLit False [53] [] 0))])
   \<and> CallToolCall (js ''list-events'')
         (Obj [(js ''account'', Str (js ''normal'')), (js ''calendarId'', Str (js ''primary'')),
               (js ''maxResults'', Num (NumLit False [53] [] 0))])
       \<in> set (snd (generateAIResponse
            (scripted (replying (js ''{\"tool\":\"list-events\",\"args\":{}}'') (Some (js ''Done''))) [TextPart (js ''No events'')])
            (connectToMcpServer Established (Inl (Error (js ''Method not found''))) initialConnector)
            (js ''what is on today'') 7))"
proof -
  let ?targs = "Obj [(js ''account'', Str (js ''normal'')), (js ''calendarId'', Str (js ''primary'')),
                     (js ''maxResults'', Num (NumLit False [53] [] 0))]"
  have na: "normalizeArgs (js ''list-events'') (Obj []) = Inr ?targs"
    by code_simp
  let ?env = "scripted (replying (js ''{\"tool\":\"list-events\",\"args\":{}}'') (Some (js ''Done''))) [TextPart (js ''No events'')]"
  let ?conn = "connectToMcpServer Established (Inl (Error (js ''Method not found''))) initialConnector"
  have a: "answers ?env (js ''what is on today'') [] (js ''mistralai/Mixtral-8x7B-Instruct-v0.1'')
       (js ''{\"tool\":\"list-events\",\"args\":{}}'')"
    by code_simp
  have d: "decidesToolCall (js ''{\"tool\":\"list-events\",\"args\":{}}'')
       (js ''{\"tool\":\"list-events\",\"args\":{}}'') (js ''list-events'') (Obj [])"
    by code_simp
  have b: "js ''list-events'' \<notin> set builtinTools"
    by code_simp
  have r: "js ''list-events'' \<in> set (map toolName (mcpToolsOrchestration ?conn))"
    by code_simp
  have c: "mcpClient ?conn \<noteq> None"
    by code_simp
  have n: "mcpClient initialConnector = None"
    by (simp add: initialConnector_def)
  from external_dispatch_iff_connected [OF a d b, of ?conn 7] r c
  have 1: "ExecutingMcpTool (js ''list-events'')
       \<in> set (snd (generateAIResponse ?env ?conn (js ''what is on today'') 7))"
    by blast
  from external_dispatch_iff_connected [OF a d b, of initialConnector 7] n
  have 2: "ExecutingMcpTool (js ''list-events'')
       \<notin> set (snd (generateAIResponse ?env initialConnector (js ''what is on today'') 7))"
    by blast
  with external_dispatch_iff_connected [OF a d b, of initialConnector 7]
  have 3: "fst (generateAIResponse ?env initialConnector (js ''what is on today'') 7)
       = Some unknownActionMessage"
    by simp
  from external_dispatch_iff_connected [OF a d b, of ?conn 7 ?targs] 1 na
  have 4: "CallToolCall (js ''list-events'') ?targs
       \<in> set (snd (generateAIResponse ?env ?conn (js ''what is on today'') 7))"
    by blast
  from a d b r c 1 2 3 na 4 show ?thesis by blast
qed

subsection \<open>C8\<close>

text \<open>
  C8. A tool call to \<open>get_booking_details\<close> or \<open>cancel_booking\<close> whose \<open>bookingId\<close>
  \<open>parseInt\<close> turns into \<open>NaN\<close> is answered with the fixed message about a valid
  booking ID number; the only call of the request that answers is the decision call: no
  tool executor runs and no summary call is made. The witness is the tool call of the
  specification, with the bookingId \<open>"abc"\<close>.
\<close>

theorem invalid_booking_id_short_circuits:
  assumes "answers env um failed model content"
    and "decidesToolCall content jsonStr tool args"
    and "tool = js ''get_booking_details'' \<or> tool = js ''cancel_booking''"
    and "parseBookingId env args = Inr None"
  shows "generateAIResponse env conn um uid =
     (Some (if tool = js ''get_booking_details'' then checkStatusMessage else cancelMessage),
      failedCalls env um failed @ [ChatCompletionCall model (decisionTurn env um)])"
  by (rule generate_booking_nan [OF assms])

theorem invalid_booking_id_short_circuits_witness:
  "answers (scripted (replying (js ''{\"tool\":\"get_booking_details\",\"args\":{\"bookingId\":\"abc\"}}'') (Some (js ''Done''))) [])
       (js ''check my ticket'') [] (js ''mistralai/Mixtral-8x7B-Instruct-v0.1'')
       (js ''{\"tool\":\"get_booking_details\",\"args\":{\"bookingId\":\"abc\"}}'')
   \<and> decidesToolCall (js ''{\"tool\":\"get_booking_details\",\"args\":{\"bookingId\":\"abc\"}}'')
       (js ''{\"tool\":\"get_booking_details\",\"args\":{\"bookingId\":\"abc\"}}'')
       (js ''get_booking_details'') (Obj [(js ''bookingId'', Str (js ''abc''))])
   \<and> parseBookingId (scripted (replying (js ''{\"tool\":\"get_booking_details\",\"args\":{\"bookingId\":\"abc\"}}'') (Some (js ''Done''))) [])
       (Obj [(js ''bookingId'', Str (js ''abc''))]) = Inr None
   \<and> generateAIResponse
       (scripted (replying (js ''{\"tool\":\"get_booking_details\",\"args\":{\"bookingId\":\"abc\"}}'') (Some (js ''Done''))) [])
       initialConnector (js ''check my ticket'') 7
     = (Some (js ''I need a valid booking ID number to check the status.''),
        [ChatCompletionCall (js ''mistralai/Mixtral-8x7B-Instruct-v0.1'')
           [(System, js ''You are the Travel Point AI Assistant.''), (User, js ''check my ticket'')]])"
proof -
  let ?text = "js ''{\"tool\":\"get_booking_details\",\"args\":{\"bookingId\":\"abc\"}}''"
  let ?env = "scripted (replying ?text (Some (js ''Done''))) []"
  have a: "answers ?env (js ''check my ticket'') [] (js ''mistralai/Mixtral-8x7B-Instruct-v0.1'') ?text"
    by code_simp
  have d: "decidesToolCall ?text ?text (js ''get_booking_details'') (Obj [(js ''bookingId'', Str (js ''abc''))])"
    by code_simp
  have p: "parseBookingId ?env (Obj [(js ''bookingId'', Str (js ''abc''))]) = Inr None"
    by code_simp
  have e: "(Some (if js ''get_booking_details'' = js ''get_booking_details''
              then checkStatusMessage else cancelMessage),
            failedCalls ?env (js ''check my ticket'') []
              @ [ChatCompletionCall (js ''mistralai/Mixtral-8x7B-Instruct-v0.1'')
                   (decisionTurn ?env (js ''check my ticket''))])
      = (Some (js ''I need a valid booking ID number to check the status.''),
        [ChatCompletionCall (js ''mistralai/Mixtral-8x7B-Instruct-v0.1'')
           [(System, js ''You are the Travel Point AI Assistant.''), (User, js ''check my ticket'')]])"
    by (simp add: checkStatusMessage_def failedCalls_def decisionTurn_def scripted_def)
  from invalid_booking_id_short_circuits [OF a d _ p, of initialConnector 7]
  have "generateAIResponse ?env initialConnector (js ''check my ticket'') 7
     = (Some (js ''I need a valid booking ID number to check the status.''),
        [ChatCompletionCall (js ''mistralai/Mixtral-8x7B-Instruct-v0.1'')
           [(System, js ''You are the Travel Point AI Assistant.''), (User, js ''check my ticket'')]])"
    unfolding e by simp
  with a d p show ?thesis by blast
qed

subsection \<open>C9\<close>

text \<open>
  C9, as stated, fails: \<open>parseInt\<close> is called without a radix, so the bookingId
  \<open>"0x1F"\<close>, a digit followed by a character that is no digit, reaches the executor as 31
  and not as its decimal prefix 0.
\<close>

theorem booking_id_hex_counterexample:
  "GetBookingDetailsCall (Whole False 31)
     \<in> set (snd (generateAIResponse
          (scripted (replying (js ''{\"tool\":\"get_booking_details\",\"args\":{\"bookingId\":\"0x1F\"}}'') (Some (js ''Done''))) [])
          initialConnector (js ''check my ticket'') 7))
   \<and> GetBookingDetailsCall (Whole False 0)
     \<notin> set (snd (generateAIResponse
          (scripted (replying (js ''{\"tool\":\"get_booking_details\",\"args\":{\"bookingId\":\"0x1F\"}}'') (Some (js ''Done''))) [])
          initialConnector (js ''check my ticket'') 7))"
proof -
  let ?text = "js ''{\"tool\":\"get_booking_details\",\"args\":{\"bookingId\":\"0x1F\"}}''"
  let ?env = "scripted (replying ?text (Some (js ''Done''))) []"
  let ?m = "js ''mistralai/Mixtral-8x7B-Instruct-v0.1''"
  have a: "answers ?env (js ''check my ticket'') [] ?m ?text"
    by code_simp
  have d: "decidesToolCall ?text ?text (js ''get_booking_details'')
       (Obj [(js ''bookingId'', Str (js ''0x1F''))])"
    by code_simp
  have p: "parseBookingId ?env (Obj [(js ''bookingId'', Str (js ''0x1F''))])
       = Inr (Some (Whole False 31))"
    by code_simp
  have r: "getBookingDetails ?env (Whole False 31) = Inr (js ''Booking is confirmed'')"
    by (simp add: scripted_def)
  from generate_booking_number [OF a d _ p, of initialConnector 7] show ?thesis
    by (simp add: failedCalls_def r)
qed

text \<open>
  C9, amended. For a call to \<open>get_booking_details\<close> or \<open>cancel_booking\<close> whose
  \<open>bookingId\<close> is a string of decimal digits followed by a character that is no digit,
  other than \<open>0\<close> followed by \<open>x\<close> or \<open>X\<close>, the executor is called with the double
  nearest to the decimal value of the digits: the value itself when it is below
  \<open>2 ^ 53\<close>, the value rounded to 53 binary digits (ties to even) above, an infinity
  from \<open>2 ^ 1024\<close> on. For any arguments the branch returns the message about a valid
  booking ID exactly when \<open>parseInt\<close> of the \<open>bookingId\<close> is \<open>NaN\<close>.
\<close>

theorem booking_id_decimal_prefix:
  assumes "answers env um failed model content"
    and "decidesToolCall content jsonStr tool args"
    and "tool = js ''get_booking_details'' \<or> tool = js ''cancel_booking''"
    and "getProp args (js ''bookingId'') = Str (ds @ r # rest)"
    and "ds \<noteq> []" and "list_all isDigit ds" and "\<not> isDigit r"
    and "\<not> (ds = [48] \<and> (r = 120 \<or> r = 88))"
  shows "snd (generateAIResponse env conn um uid) =
       failedCalls env um failed
         @ ChatCompletionCall model (decisionTurn env um)
         # (if tool = js ''get_booking_details''
            then GetBookingDetailsCall (nearestDouble False (digitsValue ds))
              # (case getBookingDetails env (nearestDouble False (digitsValue ds)) of
                   Inl e \<Rightarrow> []
                 | Inr toolResult \<Rightarrow>
                     [ChatCompletionCall model (summaryTurn env um jsonStr toolResult)])
            else CancelTicketCall (nearestDouble False (digitsValue ds))
              # (case cancelTicket env (nearestDouble False (digitsValue ds)) of
                   Inl e \<Rightarrow> []
                 | Inr toolResult \<Rightarrow>
                     [ChatCompletionCall model (summaryTurn env um jsonStr toolResult)]))
     \<and> (digitsValue ds < 2 ^ 53 \<longrightarrow>
          nearestDouble False (digitsValue ds) = Whole False (digitsValue ds))
     \<and> (fst (dispatch env conn uid tool a)
            = Return (if tool = js ''get_booking_details'' then checkStatusMessage else cancelMessage))
         = (parseBookingId env a = Inr None)"
proof -
  have p: "parseBookingId env args = Inr (Some (nearestDouble False (digitsValue ds)))"
    by (simp add: parseBookingId_def assms(4) parseInt_decimal_prefix [OF assms(5-8)])
  from assms(3) have m: "(fst (dispatch env conn uid tool a)
            = Return (if tool = js ''get_booking_details'' then checkStatusMessage else cancelMessage))
         = (parseBookingId env a = Inr None)"
    by (auto simp: dispatch_booking_message_iff js_eq_iff)
  have e: "digitsValue ds < 2 ^ 53 \<longrightarrow>
          nearestDouble False (digitsValue ds) = Whole False (digitsValue ds)"
    by (simp add: nearestDouble_def)
  from generate_booking_number [OF assms(1-3) p] m e show ?thesis by simp
qed

theorem booking_id_decimal_prefix_witness:
  "answers (scripted (replying (js ''{\"tool\":\"cancel_booking\",\"args\":{\"bookingId\":\"12abc\"}}'') (Some (js ''Done''))) [])
       (js ''cancel it'') [] (js ''mistralai/Mixtral-8x7B-Instruct-v0.1'')
       (js ''{\"tool\":\"cancel_booking\",\"args\":{\"bookingId\":\"12abc\"}}'')
   \<and> decidesToolCall (js ''{\"tool\":\"cancel_booking\",\"args\":{\"bookingId\":\"12abc\"}}'')
       (js ''{\"tool\":\"cancel_booking\",\"args\":{\"bookingId\":\"12abc\"}}'')
       (js ''cancel_booking'') (Obj [(js ''bookingId'', Str (js ''12abc''))])
   \<and> getProp (Obj [(js ''bookingId'', Str (js ''12abc''))]) (js ''bookingId'')
       = Str (js ''12'' @ 97 # js ''bc'')
   \<and> list_all isDigit (js ''12'') \<and> \<not> isDigit 97
   \<and> digitsValue (js ''12'') < 2 ^ 53
   \<and> snd (generateAIResponse
       (scripted (replying (js ''{\"tool\":\"cancel_booking\",\"args\":{\"bookingId\":\"12abc\"}}'') (Some (js ''Done''))) [])
       initialConnector (js ''cancel it'') 7)
     = [ChatCompletionCall (js ''mistralai/Mixtral-8x7B-Instruct-v0.1'')
          [(System, js ''You are the Travel Point AI Assistant.''), (User, js ''cancel it'')],
        CancelTicketCall (Whole False 12),
        ChatCompletionCall (js ''mistralai/Mixtral-8x7B-Instruct-v0.1'')
          [(System, js ''You are the Travel Point AI Assistant.''), (User, js ''cancel it''),
           (Assistant, js ''{\"tool\":\"cancel_booking\",\"args\":{\"bookingId\":\"12abc\"}}''),
           (User, js ''Tool Output: Booking cancelled. Please tell me what you did.'')]]
   \<and> answers (scripted (replying (js ''{\"tool\":\"cancel_booking\",\"args\":{\"bookingId\":\"9007199254740993abc\"}}'') (Some (js ''Done''))) [])
       (js ''cancel it'') [] (js ''mistralai/Mixtral-8x7B-Instruct-v0.1'')
       (js ''{\"tool\":\"cancel_booking\",\"args\":{\"bookingId\":\"9007199254740993abc\"}}'')
   \<and> decidesToolCall (js ''{\"tool\":\"cancel_booking\",\"args\":{\"bookingId\":\"9007199254740993abc\"}}'')
       (js ''{\"tool\":\"cancel_booking\",\"args\":{\"bookingId\":\"9007199254740993abc\"}}'')
       (js ''cancel_booking'') (Obj [(js ''bookingId'', Str (js ''9007199254740993abc''))])
   \<and> list_all isDigit (js ''9007199254740993'')
   \<and> CancelTicketCall (Whole False 9007199254740992)
       \<in> set (snd (generateAIResponse
            (scripted (replying (js ''{\"tool\":\"cancel_booking\",\"args\":{\"bookingId\":\"9007199254740993abc\"}}'') (Some (js ''Done''))) [])
            initialConnector (js ''cancel it'') 7))"
proof -
  let ?text = "js ''{\"tool\":\"cancel_booking\",\"args\":{\"bookingId\":\"12abc\"}}''"
  let ?env = "scripted (replying ?text (Some (js ''Done''))) []"
  let ?big = "js ''{\"tool\":\"cancel_booking\",\"args\":{\"bookingId\":\"9007199254740993abc\"}}''"
  let ?env' = "scripted (replying ?big (Some (js ''Done''))) []"
  let ?m = "js ''mistralai/Mixtral-8x7B-Instruct-v0.1''"
  have a: "answers ?env (js ''cancel it'') [] ?m ?text"
    by code_simp
  have d: "decidesToolCall ?text ?text (js ''cancel_booking'') (Obj [(js ''bookingId'', Str (js ''12abc''))])"
    by code_simp
  have g: "getProp (Obj [(js ''bookingId'', Str (js ''12abc''))]) (js ''bookingId'')
       = Str (js ''12'' @ 97 # js ''bc'')"
    by code_simp
  have l: "list_all isDigit (js ''12'')" and r: "\<not> isDigit 97"
    by code_simp+
  have n: "js ''12'' \<noteq> []" and h: "\<not> (js ''12'' = [48] \<and> ((97::nat) = 120 \<or> (97::nat) = 88))"
    by (simp_all add: js_def)
  have v: "digitsValue (js ''12'') = 12"
    by code_simp
  then have s: "digitsValue (js ''12'') < 2 ^ 53"
    by simp
  have t: "cancelTicket ?env (Whole False 12) = Inr (js ''Booking cancelled'')"
    by (simp add: scripted_def)
  have u: "summaryTurn ?env (js ''cancel it'') ?text (js ''Booking cancelled'')
      = [(System, js ''You are the Travel Point AI Assistant.''), (User, js ''cancel it''),
         (Assistant, ?text),
         (User, js ''Tool Output: Booking cancelled. Please tell me what you did.'')]"
    and w: "decisionTurn ?env (js ''cancel it'')
      = [(System, js ''You are the Travel Point AI Assistant.''), (User, js ''cancel it'')]"
    by code_simp+
  from booking_id_decimal_prefix [OF a d _ g n l r h, of initialConnector 7] s
  have 1: "snd (generateAIResponse ?env initialConnector (js ''cancel it'') 7)
     = [ChatCompletionCall ?m
          [(System, js ''You are the Travel Point AI Assistant.''), (User, js ''cancel it'')],
        CancelTicketCall (Whole False 12),
        ChatCompletionCall ?m
          [(System, js ''You are the Travel Point AI Assistant.''), (User, js ''cancel it''),
           (Assistant, ?text),
           (User, js ''Tool Output: Booking cancelled. Please tell me what you did.'')]]"
    by (simp add: v js_eq_iff failedCalls_def t u w)
  have a': "answers ?env' (js ''cancel it'') [] ?m ?big"
    by code_simp
  have d': "decidesToolCall ?big ?big (js ''cancel_booking'')
      (Obj [(js ''bookingId'', Str (js ''9007199254740993abc''))])"
    by code_simp
  have g': "getProp (Obj [(js ''bookingId'', Str (js ''9007199254740993abc''))]) (js ''bookingId'')
       = Str (js ''9007199254740993'' @ 97 # js ''bc'')"
    by code_simp
  have l': "list_all isDigit (js ''9007199254740993'')"
    by code_simp
  have n': "js ''9007199254740993'' \<noteq> []"
    and h': "\<not> (js ''9007199254740993'' = [48] \<and> ((97::nat) = 120 \<or> (97::nat) = 88))"
    by (simp_all add: js_def)
  have v': "nearestDouble False (digitsValue (js ''9007199254740993''))
      = Whole False 9007199254740992"
    by code_simp
  from booking_id_decimal_prefix [OF a' d' _ g' n' l' r h', of initialConnector 7]
  have 2: "CancelTicketCall (Whole False 9007199254740992)
       \<in> set (snd (generateAIResponse ?env' initialConnector (js ''cancel it'') 7))"
    by (simp add: v' js_eq_iff)
  from a d g l r s 1 a' d' l' 2 show ?thesis by blast
qed

subsection \<open>C10\<close>

text \<open>
  C10. The \<open>book_ticket\<close> branch validates nothing: for every tool call that passes
  \<open>isValidToolCall\<close> and names \<open>book_ticket\<close>, the executor is called with the
  \<open>tripId\<close>, \<open>pickupId\<close>, \<open>dropId\<close> and \<open>amount\<close> of the model as they are
  (\<open>undefined\<close> where missing), right after the decision call.
\<close>

theorem book_ticket_unvalidated:
  assumes "answers env um failed model content"
    and "decidesToolCall content jsonStr (js ''book_ticket'') args"
  shows "snd (generateAIResponse env conn um uid) =
     failedCalls env um failed
       @ ChatCompletionCall model (decisionTurn env um)
       # BookTicketCall (getProp args (js ''tripId'')) uid
           (getProp args (js ''pickupId'')) (getProp args (js ''dropId''))
           (getProp args (js ''amount''))
       # (case bookTicket env (getProp args (js ''tripId'')) uid
                 (getProp args (js ''pickupId'')) (getProp args (js ''dropId''))
                 (getProp args (js ''amount'')) of
            Inl e \<Rightarrow> []
          | Inr toolResult \<Rightarrow>
              [ChatCompletionCall model (summaryTurn env um jsonStr toolResult)])"
  by (simp add: generate_answered [OF assms(1)] afterDecision_toolCall [OF assms(2)]
      dispatch_book_ticket toolStep_def summarize_def split: sum.splits)

theorem book_ticket_unvalidated_witness:
  "answers (scripted (replying (js ''{\"tool\":\"book_ticket\",\"args\":{\"tripId\":\"abc\"}}'') (Some (js ''Done''))) [])
       (js ''book it'') [] (js ''mistralai/Mixtral-8x7B-Instruct-v0.1'')
       (js ''{\"tool\":\"book_ticket\",\"args\":{\"tripId\":\"abc\"}}'')
   \<and> decidesToolCall (js ''{\"tool\":\"book_ticket\",\"args\":{\"tripId\":\"abc\"}}'')
       (js ''{\"tool\":\"book_ticket\",\"args\":{\"tripId\":\"abc\"}}'') (js ''book_ticket'')
       (Obj [(js ''tripId'', Str (js ''abc''))])
   \<and> BookTicketCall (Str (js ''abc'')) 7 Undefined Undefined Undefined
       \<in> set (snd (generateAIResponse
            (scripted (replying (js ''{\"tool\":\"book_ticket\",\"args\":{\"tripId\":\"abc\"}}'') (Some (js ''Done''))) [])
            initialConnector (js ''book it'') 7))"
proof -
  have a: "answers (scripted (replying (js ''{\"tool\":\"book_ticket\",\"args\":{\"tripId\":\"abc\"}}'') (Some (js ''Done''))) [])
       (js ''book it'') [] (js ''mistralai/Mixtral-8x7B-Instruct-v0.1'')
       (js ''{\"tool\":\"book_ticket\",\"args\":{\"tripId\":\"abc\"}}'')"
    by code_simp
  have d: "decidesToolCall (js ''{\"tool\":\"book_ticket\",\"args\":{\"tripId\":\"abc\"}}'')
       (js ''{\"tool\":\"book_ticket\",\"args\":{\"tripId\":\"abc\"}}'') (js ''book_ticket'')
       (Obj [(js ''tripId'', Str (js ''abc''))])"
    by code_simp
  have g: "getProp (Obj [(js ''tripId'', Str (js ''abc''))]) (js ''tripId'') = Str (js ''abc'')"
    "getProp (Obj [(js ''tripId'', Str (js ''abc''))]) (js ''pickupId'') = Undefined"
    "getProp (Obj [(js ''tripId'', Str (js ''abc''))]) (js ''dropId'') = Undefined"
    "getProp (Obj [(js ''tripId'', Str (js ''abc''))]) (js ''amount'') = Undefined"
    by (simp_all add: js_eq_iff)
  from book_ticket_unvalidated [OF a d, of initialConnector 7]
  have "BookTicketCall (Str (js ''abc'')) 7 Undefined Undefined Undefined
       \<in> set (snd (generateAIResponse
            (scripted (replying (js ''{\"tool\":\"book_ticket\",\"args\":{\"tripId\":\"abc\"}}'') (Some (js ''Done''))) [])
            initialConnector (js ''book it'') 7))"
    by (simp only: g) simp
  with a d show ?thesis by blast
qed

end
